theory Spec2Isabelle
  imports Complex_Main
begin

section \<open>Numbers and arrays of the host language\<close>

text \<open>
  The program is JavaScript. Its numbers are modelled as a real number or \<open>NaN\<close>:
  rounding of doubles and the two infinities are outside the model, every expression is
  kept in the order in which the source evaluates it. An arithmetic operator with a
  \<open>NaN\<close> operand yields \<open>NaN\<close>; a comparison with a \<open>NaN\<close> operand is false.
  The claims' theorems are stated with these operators, composed as the source composes
  them, so that they say of the program's arithmetic what they say of the model's.
\<close>

datatype jsnum = Num real | NaN

instantiation jsnum :: "{zero, one, plus, minus, times}"
begin

definition zero_jsnum :: jsnum where
  "zero_jsnum = Num 0"

definition one_jsnum :: jsnum where
  "one_jsnum = Num 1"

fun plus_jsnum :: "jsnum \<Rightarrow> jsnum \<Rightarrow> jsnum" where
  "plus_jsnum (Num a) (Num b) = Num (a + b)"
| "plus_jsnum _ _ = NaN"

fun minus_jsnum :: "jsnum \<Rightarrow> jsnum \<Rightarrow> jsnum" where
  "minus_jsnum (Num a) (Num b) = Num (a - b)"
| "minus_jsnum _ _ = NaN"

fun times_jsnum :: "jsnum \<Rightarrow> jsnum \<Rightarrow> jsnum" where
  "times_jsnum (Num a) (Num b) = Num (a * b)"
| "times_jsnum _ _ = NaN"

instance ..

end

text \<open>The comparisons \<^verbatim>\<open>>=\<close>, \<^verbatim>\<open><=\<close>, \<^verbatim>\<open>>\<close> and \<^verbatim>\<open><\<close>.\<close>

fun js_ge :: "jsnum \<Rightarrow> jsnum \<Rightarrow> bool" where
  "js_ge (Num a) (Num b) = (b \<le> a)"
| "js_ge _ _ = False"

fun js_le :: "jsnum \<Rightarrow> jsnum \<Rightarrow> bool" where
  "js_le (Num a) (Num b) = (a \<le> b)"
| "js_le _ _ = False"

fun js_gt :: "jsnum \<Rightarrow> jsnum \<Rightarrow> bool" where
  "js_gt (Num a) (Num b) = (b < a)"
| "js_gt _ _ = False"

fun js_lt :: "jsnum \<Rightarrow> jsnum \<Rightarrow> bool" where
  "js_lt (Num a) (Num b) = (a < b)"
| "js_lt _ _ = False"

text \<open>
  \<^verbatim>\<open>Math.max\<close> and \<^verbatim>\<open>Math.min\<close> return \<open>NaN\<close> as soon as one argument is \<open>NaN\<close>;
  the other functions of \<^verbatim>\<open>Math\<close> used by the catalog map \<open>NaN\<close> to \<open>NaN\<close>.
\<close>

fun js_max :: "jsnum \<Rightarrow> jsnum \<Rightarrow> jsnum" where
  "js_max (Num a) (Num b) = Num (max a b)"
| "js_max _ _ = NaN"

fun js_min :: "jsnum \<Rightarrow> jsnum \<Rightarrow> jsnum" where
  "js_min (Num a) (Num b) = Num (min a b)"
| "js_min _ _ = NaN"

fun js_lift :: "(real \<Rightarrow> real) \<Rightarrow> jsnum \<Rightarrow> jsnum" where
  "js_lift g (Num a) = Num (g a)"
| "js_lift g NaN = NaN"

fun js_div :: "jsnum \<Rightarrow> jsnum \<Rightarrow> jsnum" where
  "js_div (Num a) (Num b) = (if b = 0 then NaN else Num (a / b))"
| "js_div _ _ = NaN"

text \<open>
  Reading an array of numbers past its end gives \<^verbatim>\<open>undefined\<close>. Every such read of the
  numeric core is an operand of an arithmetic operator, where \<^verbatim>\<open>undefined\<close> converts to
  \<open>NaN\<close>, so the read is modelled with that value. Writing at index \<open>i\<close> past the end
  extends the array; the holes in between read as \<^verbatim>\<open>undefined\<close> too.
\<close>

definition js_nth :: "jsnum list \<Rightarrow> nat \<Rightarrow> jsnum" where
  "js_nth xs i = (if i < length xs then xs ! i else NaN)"


text \<open>
  Values whose type the program tests at run time (the constructor's \<open>layerSizes\<close>, the
  fields of a parsed JSON document): \<^verbatim>\<open>undefined\<close>, \<^verbatim>\<open>null\<close>, booleans, numbers, strings,
  arrays, and objects as lists of properties.
\<close>

datatype jsval =
    JUndefined
  | JNull
  | JBool bool
  | JNumber jsnum
  | JString string
  | JArray "jsval list"
  | JObject "(string \<times> jsval) list"

section \<open>The catalog of activation functions\<close>

text \<open>
  An entry of \<^verbatim>\<open>ActivationFunctions\<close>: a name, the function and its derivative. The
  fields carry the prefix \<open>act_\<close> because \<open>name\<close> is also a field of the perceptron and
  \<open>f\<close> would capture a variable name.
\<close>

record activation_fn =
  act_name :: string
  act_f :: "jsnum \<Rightarrow> jsnum"
  act_df :: "jsnum \<Rightarrow> jsnum"

definition binary :: activation_fn where
  "binary = \<lparr> act_name = ''binary [0,1]'',
      act_f = (\<lambda>x. if js_ge x (Num (1/2)) then Num 1 else Num 0),
      act_df = (\<lambda>x. Num 0) \<rparr>"

definition linearBounded :: activation_fn where
  "linearBounded = \<lparr> act_name = ''linear[-1,1]'',
      act_f = (\<lambda>x. js_max (Num (-1)) (js_min (Num 1) x)),
      act_df = (\<lambda>x. if js_lt x (Num (-1)) \<or> js_gt x (Num 1) then Num 0 else Num 1) \<rparr>"

definition sigmoid :: activation_fn where
  "sigmoid = \<lparr> act_name = ''sigmoid'',
      act_f = (\<lambda>x. js_div (Num 1) (Num 1 + js_lift (\<lambda>r. exp (- r)) x)),
      act_df = (\<lambda>x. let s = js_div (Num 1) (Num 1 + js_lift (\<lambda>r. exp (- r)) x)
                     in s * (Num 1 - s)) \<rparr>"

definition relu :: activation_fn where
  "relu = \<lparr> act_name = ''relu'',
      act_f = (\<lambda>x. js_max (Num 0) x),
      act_df = (\<lambda>x. if js_gt x (Num 0) then Num 1 else Num 0) \<rparr>"

definition tanh_fn :: activation_fn where
  "tanh_fn = \<lparr> act_name = ''tanh'',
      act_f = (\<lambda>x. js_lift tanh x),
      act_df = (\<lambda>x. Num 1 - js_lift (\<lambda>r. r ^ 2) (js_lift tanh x)) \<rparr>"

definition leakyRelu :: activation_fn where
  "leakyRelu = \<lparr> act_name = ''leakyReLU'',
      act_f = (\<lambda>x. if js_gt x (Num 0) then x else Num (1/100) * x),
      act_df = (\<lambda>x. if js_gt x (Num 0) then Num 1 else Num (1/100)) \<rparr>"

definition elu :: activation_fn where
  "elu = \<lparr> act_name = ''ELU'',
      act_f = (\<lambda>x. if js_ge x (Num 0) then x else js_lift (\<lambda>r. exp r - 1) x),
      act_df = (\<lambda>x. if js_ge x (Num 0) then Num 1 else js_lift exp x) \<rparr>"

definition softplus :: activation_fn where
  "softplus = \<lparr> act_name = ''Softplus'',
      act_f = (\<lambda>x. js_lift ln (Num 1 + js_lift exp x)),
      act_df = (\<lambda>x. js_div (Num 1) (Num 1 + js_lift (\<lambda>r. exp (- r)) x)) \<rparr>"

text \<open>\<^verbatim>\<open>Object.values(ActivationFunctions)\<close>, in the order of the declaration.\<close>

definition ActivationFunctions :: "activation_fn list" where
  "ActivationFunctions =
     [binary, linearBounded, sigmoid, relu, tanh_fn, leakyRelu, elu, softplus]"

section \<open>Perceptron\<close>

record perceptron =
  learningRate :: jsnum
  weights :: "jsnum list"
  bias :: jsnum
  activationThreshold :: jsnum
  disableThreshold :: bool
  name :: string







section \<open>Errors\<close>

text \<open>
  Every \<^verbatim>\<open>throw\<close> of the numeric core, by its message, and the \<^verbatim>\<open>TypeError\<close> the host
  raises when a property of \<^verbatim>\<open>undefined\<close> or \<^verbatim>\<open>null\<close> is read. A method that mutates
  its object returns the object as the call leaves it, together with the error thrown,
  if any; a method that only reads returns the error or the value.
\<close>

datatype error =
    IndexOutOfBounds nat
  | WeightCountMismatch
  | LayerSizesNotArrayOfTwo
  | LayerSizeNotPositiveNumber
  | InvalidModel
  | TypeError

section \<open>Neuron\<close>

text \<open>
  A connection is the object \<^verbatim>\<open>{index, weight}\<close>. A neuron extends the perceptron: it
  inherits its fields (the inherited \<open>weights\<close> array is never read by the methods the
  neuron overrides) and adds the connections and the activation. Each neuron owns its
  connection objects, as the constructor builds them.
\<close>

record connection =
  index :: nat
  weight :: jsnum

record neuron = perceptron +
  connections :: "connection list"
  activation :: activation_fn

fun neuron_sum :: "jsnum \<Rightarrow> connection list \<Rightarrow> jsnum list \<Rightarrow> error + jsnum" where
  "neuron_sum s [] inputs = Inr s"
| "neuron_sum s (c # cs) inputs =
     (if length inputs \<le> index c then Inl (IndexOutOfBounds (index c))
      else neuron_sum (s + inputs ! index c * weight c) cs inputs)"

definition Neuron_activate :: "neuron \<Rightarrow> jsnum \<Rightarrow> jsnum" where
  "Neuron_activate n s = act_f (activation n) s"

definition activationDerivative :: "neuron \<Rightarrow> jsnum \<Rightarrow> jsnum" where
  "activationDerivative n s = act_df (activation n) s"

definition Neuron_predict :: "neuron \<Rightarrow> jsnum list \<Rightarrow> error + jsnum" where
  "Neuron_predict n inputs =
     (case neuron_sum (bias n) (connections n) inputs of
        Inl e \<Rightarrow> Inl e
      | Inr s \<Rightarrow> Inr (Neuron_activate n s))"

definition getWeights :: "neuron \<Rightarrow> jsnum list" where
  "getWeights n = map weight (connections n)"

definition getBias :: "neuron \<Rightarrow> jsnum" where
  "getBias n = bias n"

definition setBias :: "neuron \<Rightarrow> jsnum \<Rightarrow> neuron" where
  "setBias n b = n\<lparr> bias := b \<rparr>"

text \<open>
  \<^verbatim>\<open>Neuron.setWeights\<close>: the length test, then the loop
  \<^verbatim>\<open>this.connections[i].weight = weights[i]\<close>.
\<close>

definition assign_weights :: "connection list \<Rightarrow> jsnum list \<Rightarrow> connection list" where
  "assign_weights cs ws =
     foldl (\<lambda>c i. c[i := (c ! i)\<lparr> weight := ws ! i \<rparr>]) cs [0..<length ws]"

definition setWeights :: "neuron \<Rightarrow> jsnum list \<Rightarrow> neuron \<times> error option" where
  "setWeights n ws =
     (if length ws \<noteq> length (connections n) then (n, Some WeightCountMismatch)
      else (n\<lparr> connections := assign_weights (connections n) ws \<rparr>, None))"

section \<open>NeuralNetwork\<close>

text \<open>
  The fields \<^verbatim>\<open>activation\<close> and \<^verbatim>\<open>learningRate\<close> of the network are written
  \<open>net_activation\<close> and \<open>net_learningRate\<close>: the neuron has fields of the same names.
\<close>

record network =
  net_activation :: activation_fn
  layerSizes :: "jsnum list"
  net_learningRate :: jsnum
  layers :: "neuron list list"
  inputNames :: jsval
  outputNames :: jsval
  epoch :: jsval

text \<open>\<^verbatim>\<open>layer.map(n => n.predict(a))\<close>: the first throw ends the map.\<close>

fun predict_layer :: "neuron list \<Rightarrow> jsnum list \<Rightarrow> error + jsnum list" where
  "predict_layer [] a = Inr []"
| "predict_layer (n # ns) a =
     (case Neuron_predict n a of
        Inl e \<Rightarrow> Inl e
      | Inr y \<Rightarrow> (case predict_layer ns a of Inl e \<Rightarrow> Inl e | Inr ys \<Rightarrow> Inr (y # ys)))"

fun predict_layers :: "neuron list list \<Rightarrow> jsnum list \<Rightarrow> error + jsnum list" where
  "predict_layers [] a = Inr a"
| "predict_layers (layer # rest) a =
     (case predict_layer layer a of Inl e \<Rightarrow> Inl e | Inr a' \<Rightarrow> predict_layers rest a')"

definition NeuralNetwork_predict :: "network \<Rightarrow> jsnum list \<Rightarrow> error + jsnum list" where
  "NeuralNetwork_predict net input = predict_layers (layers net) input"

subsection \<open>backpropagate: the forward pass\<close>

text \<open>
  The forward pass of \<open>backpropagate\<close> does not call \<open>Neuron.predict\<close>: it reduces
  \<open>getWeights()\<close> with the list position \<open>i\<close> of each weight,
  \<^verbatim>\<open>reduce((s, w, i) => s + w * activations.at(-1)[i], 0) + neuron.getBias()\<close>.
\<close>

definition forward_z :: "neuron \<Rightarrow> jsnum list \<Rightarrow> jsnum" where
  "forward_z n prev =
     foldl (\<lambda>s (i, w). s + w * js_nth prev i) (Num 0) (enumerate 0 (getWeights n)) + getBias n"

fun forward :: "neuron list list \<Rightarrow> jsnum list list \<Rightarrow> jsnum list list
    \<Rightarrow> jsnum list list \<times> jsnum list list" where
  "forward [] activations zs = (activations, zs)"
| "forward (layer # rest) activations zs =
     (let z = map (\<lambda>n. forward_z n (last activations)) layer;
          a = map2 Neuron_activate layer z
      in forward rest (activations @ [a]) (zs @ [z]))"

subsection \<open>backpropagate: the output error\<close>

text \<open>
  \<^verbatim>\<open>activations.at(-1).map((a, i) => (a - target[i]) * outputLayer[i].activation.df(outputZ[i]))\<close>
\<close>

definition output_delta :: "neuron list \<Rightarrow> jsnum list \<Rightarrow> jsnum list \<Rightarrow> jsnum list \<Rightarrow> jsnum list" where
  "output_delta outputLayer a outputZ target =
     map (\<lambda>i. (a ! i - js_nth target i) * act_df (activation (outputLayer ! i)) (outputZ ! i))
       [0..<length a]"

subsection \<open>backpropagate: the backward pass\<close>

text \<open>The body of the loop over \<open>j\<close>: new weights and bias of one neuron, then the setters.\<close>

definition update_neuron :: "jsnum \<Rightarrow> jsnum \<Rightarrow> jsnum list \<Rightarrow> neuron \<Rightarrow> neuron \<times> error option" where
  "update_neuron lr d prevA n =
     (let newWeights = map (\<lambda>(k, w). w - lr * d * js_nth prevA k) (enumerate 0 (getWeights n));
          newBias = getBias n - lr * d
      in case setWeights n newWeights of
           (n', Some e) \<Rightarrow> (n', Some e)
         | (n', None) \<Rightarrow> (setBias n' newBias, None))"

fun update_layer :: "jsnum \<Rightarrow> jsnum list \<Rightarrow> jsnum list \<Rightarrow> nat \<Rightarrow> neuron list
    \<Rightarrow> neuron list \<times> error option" where
  "update_layer lr delta prevA j [] = ([], None)"
| "update_layer lr delta prevA j (n # ns) =
     (case update_neuron lr (js_nth delta j) prevA n of
        (n', Some e) \<Rightarrow> (n' # ns, Some e)
      | (n', None) \<Rightarrow>
          (case update_layer lr delta prevA (Suc j) ns of (ns', e) \<Rightarrow> (n' # ns', e)))"

text \<open>
  The delta of the previous layer: \<^verbatim>\<open>sum += layer[j].getWeights()[i] * delta[j]\<close> over
  \<open>j\<close>, times \<^verbatim>\<open>prevLayer[i].activation.df(zs[l - 1][i])\<close>. The weight is read at list
  position \<open>i\<close> of \<open>getWeights()\<close>.
\<close>

definition next_delta :: "neuron list \<Rightarrow> jsnum list \<Rightarrow> neuron list \<Rightarrow> jsnum list \<Rightarrow> jsnum list" where
  "next_delta layer delta prevLayer prevZ =
     map (\<lambda>i. foldl (\<lambda>s j. s + js_nth (getWeights (layer ! j)) i * js_nth delta j) (Num 0)
                 [0..<length layer]
               * act_df (activation (prevLayer ! i)) (prevZ ! i))
       [0..<length prevLayer]"

text \<open>
  The loop \<^verbatim>\<open>for (l = layers.length - 1; l >= 0; l--)\<close>, with \<open>Suc l\<close> iterations left.
  Beside the layers and the current delta the model keeps a trace: the delta with which
  each layer was updated, the one of layer \<open>l\<close> at position \<open>l\<close> once the loop is over.
  The trace is an observation of the run and has no influence on it.
\<close>

fun backward :: "jsnum \<Rightarrow> jsnum list list \<Rightarrow> jsnum list list \<Rightarrow> nat
    \<Rightarrow> neuron list list \<Rightarrow> jsnum list \<Rightarrow> jsnum list list
    \<Rightarrow> (neuron list list \<times> jsnum list list) \<times> error option" where
  "backward lr activations zs 0 ls delta trace = ((ls, trace), None)"
| "backward lr activations zs (Suc l) ls delta trace =
     (case update_layer lr delta (activations ! l) 0 (ls ! l) of
        (layer', Some e) \<Rightarrow> ((ls[l := layer'], delta # trace), Some e)
      | (layer', None) \<Rightarrow>
          (let ls' = ls[l := layer'];
               delta' = (if 0 < l then next_delta (ls' ! l) delta (ls' ! (l - 1)) (zs ! (l - 1))
                         else delta)
           in backward lr activations zs l ls' delta' (delta # trace)))"

text \<open>
  \<open>backpropagate\<close> as a whole. With no layer at all \<^verbatim>\<open>this.layers.at(-1)\<close> and
  \<^verbatim>\<open>zs.at(-1)\<close> are \<^verbatim>\<open>undefined\<close>, and mapping a non-empty input reads a property of
  \<^verbatim>\<open>undefined\<close>: a \<^verbatim>\<open>TypeError\<close>, before anything is written.
\<close>

definition backpropagate_trace :: "network \<Rightarrow> jsnum list \<Rightarrow> jsnum list
    \<Rightarrow> (network \<times> jsnum list list) \<times> error option" where
  "backpropagate_trace net input target =
     (case forward (layers net) [input] [] of
        (activations, zs) \<Rightarrow>
          if layers net = [] then
            (if input = [] then ((net, []), None) else ((net, []), Some TypeError))
          else
            (let delta = output_delta (last (layers net)) (last activations) (last zs) target
             in case backward (net_learningRate net) activations zs (length (layers net))
                       (layers net) delta [] of
                  ((ls, trace), e) \<Rightarrow> ((net\<lparr> layers := ls \<rparr>, trace), e)))"

definition backpropagate :: "network \<Rightarrow> jsnum list \<Rightarrow> jsnum list \<Rightarrow> network \<times> error option" where
  "backpropagate net input target =
     (case backpropagate_trace net input target of ((net', trace), e) \<Rightarrow> (net', e))"


section \<open>Construction\<close>

text \<open>
  \<^verbatim>\<open>Math.random()\<close> is a sequence \<open>rnd\<close> of reals of which the program has consumed the
  first \<open>c\<close>; a constructor returns the object and the new count.
  \<^verbatim>\<open>Array.from({ length: x }, () => Math.random() * 2 - 1)\<close> has \<open>ToLength(x)\<close> entries
  (the cap at \<open>2^53 - 1\<close> is not modelled).
\<close>

fun to_length :: "jsnum \<Rightarrow> nat" where
  "to_length (Num r) = nat \<lfloor>r\<rfloor>"
| "to_length NaN = 0"

definition draws :: "(nat \<Rightarrow> real) \<Rightarrow> nat \<Rightarrow> nat \<Rightarrow> jsnum list" where
  "draws rnd c n = map (\<lambda>i. Num (rnd (c + i) * 2 - 1)) [0..<n]"

definition Perceptron_new :: "(nat \<Rightarrow> real) \<Rightarrow> nat \<Rightarrow> nat \<Rightarrow> jsnum \<Rightarrow> bool \<Rightarrow> perceptron \<times> nat" where
  "Perceptron_new rnd c inputSize lr disable =
     (\<lparr> learningRate = lr,
        weights = draws rnd c inputSize,
        bias = Num (rnd (c + inputSize) * 2 - 1),
        activationThreshold = Num 0,
        disableThreshold = disable,
        name = ''Perceptron'' \<rparr>,
      c + inputSize + 1)"

text \<open>
  \<^verbatim>\<open>new Neuron(inputSize, learningRate, activation, connections)\<close>: without explicit
  connections one weight is drawn per input and connection \<open>i\<close> gets index \<open>i\<close>; then
  the constructor of the perceptron draws its own weights and the bias.
\<close>

definition Neuron_new :: "(nat \<Rightarrow> real) \<Rightarrow> nat \<Rightarrow> jsnum \<Rightarrow> jsnum \<Rightarrow> activation_fn \<Rightarrow> connection list
    \<Rightarrow> neuron \<times> nat" where
  "Neuron_new rnd c inputSize lr act conns =
     (let ws = (if conns \<noteq> [] then map weight conns else draws rnd c (to_length inputSize));
          c1 = (if conns \<noteq> [] then c else c + to_length inputSize)
      in case Perceptron_new rnd c1 (length ws) lr False of
           (p, c2) \<Rightarrow>
             (\<lparr> learningRate = learningRate p, weights = weights p, bias = bias p,
                activationThreshold = activationThreshold p,
                disableThreshold = disableThreshold p, name = name p,
                connections = (if conns \<noteq> [] then conns
                               else map (\<lambda>(i, w). \<lparr> index = i, weight = w \<rparr>) (enumerate 0 ws)),
                activation = act \<rparr>,
              c2))"

text \<open>
  The truth value of a value, as \<^verbatim>\<open>!\<close> and \<^verbatim>\<open>||\<close> take it: \<^verbatim>\<open>undefined\<close>, \<^verbatim>\<open>null\<close>,
  \<^verbatim>\<open>false\<close>, \<open>0\<close>, \<open>NaN\<close> and the empty string are false, everything else is true.
\<close>

fun js_truthy :: "jsval \<Rightarrow> bool" where
  "js_truthy JUndefined = False"
| "js_truthy JNull = False"
| "js_truthy (JBool b) = b"
| "js_truthy (JNumber (Num r)) = (r \<noteq> 0)"
| "js_truthy (JNumber NaN) = False"
| "js_truthy (JString s) = (s \<noteq> [])"
| "js_truthy (JArray xs) = True"
| "js_truthy (JObject kv) = True"

text \<open>\<^verbatim>\<open>typeof size !== 'number' || size <= 0\<close>\<close>

fun bad_size :: "jsval \<Rightarrow> bool" where
  "bad_size (JNumber x) = js_le x (Num 0)"
| "bad_size _ = True"

fun the_number :: "jsval \<Rightarrow> jsnum" where
  "the_number (JNumber x) = x"
| "the_number _ = NaN"

text \<open>
  The number of iterations of \<^verbatim>\<open>for (let i = 0; i < count; i++)\<close>: none when \<open>count\<close> is
  \<open>NaN\<close>, else the least natural number that is not below \<open>count\<close>.
\<close>

fun iterations :: "jsnum \<Rightarrow> nat" where
  "iterations (Num r) = nat \<lceil>r\<rceil>"
| "iterations NaN = 0"

text \<open>
  A number as a decimal string; the name of neuron \<open>i\<close> of layer \<open>l\<close>, as \<open>A1\<close>. The
  characters of the model are bytes: from layer 192 on \<open>char_of\<close> wraps where
  \<^verbatim>\<open>String.fromCharCode\<close> does not. Names are labels only; no property below reads one
  beyond \<open>A1\<close>.
\<close>

fun decimal :: "nat \<Rightarrow> string" where
  "decimal n =
     (if n < 10 then [char_of (48 + n)] else decimal (n div 10) @ [char_of (48 + n mod 10)])"

declare decimal.simps [simp del]

definition neuron_name :: "nat \<Rightarrow> nat \<Rightarrow> string" where
  "neuron_name l i = char_of (64 + l) # decimal (Suc i)"

text \<open>The inner loop of the constructor: \<open>k\<close> neurons still to push onto \<open>layer\<close>.\<close>

fun new_layer :: "(nat \<Rightarrow> real) \<Rightarrow> nat \<Rightarrow> jsnum \<Rightarrow> jsnum \<Rightarrow> activation_fn \<Rightarrow> nat \<Rightarrow> nat
    \<Rightarrow> neuron list \<Rightarrow> neuron list \<times> nat" where
  "new_layer rnd c inputSize lr act l 0 layer = (layer, c)"
| "new_layer rnd c inputSize lr act l (Suc k) layer =
     (case Neuron_new rnd c inputSize lr act [] of
        (n, c') \<Rightarrow>
          new_layer rnd c' inputSize lr act l k
            (layer @ [n\<lparr> name := neuron_name l (length layer) \<rparr>]))"

text \<open>The outer loop: the sizes still to read, the one before them, the layer number.\<close>

fun new_layers :: "(nat \<Rightarrow> real) \<Rightarrow> nat \<Rightarrow> jsnum \<Rightarrow> activation_fn \<Rightarrow> nat \<Rightarrow> jsnum \<Rightarrow> jsnum list
    \<Rightarrow> neuron list list \<Rightarrow> neuron list list \<times> nat" where
  "new_layers rnd c lr act l inputSize [] ls = (ls, c)"
| "new_layers rnd c lr act l inputSize (count # sizes) ls =
     (case new_layer rnd c inputSize lr act l (iterations count) [] of
        (layer, c') \<Rightarrow> new_layers rnd c' lr act (Suc l) count sizes (ls @ [layer]))"

text \<open>
  \<^verbatim>\<open>new NeuralNetwork(layerSizes, inputNames, outputNames, learningRate, activation)\<close>.
  The two tests come first, in the order of the source; \<open>epoch\<close> is not set by the
  constructor.
\<close>

definition NeuralNetwork_new :: "(nat \<Rightarrow> real) \<Rightarrow> nat \<Rightarrow> jsval \<Rightarrow> jsval \<Rightarrow> jsval \<Rightarrow> jsnum
    \<Rightarrow> activation_fn \<Rightarrow> error + network \<times> nat" where
  "NeuralNetwork_new rnd c sizes inNames outNames lr act =
     (case sizes of
        JArray xs \<Rightarrow>
          if length xs < 2 then Inl LayerSizesNotArrayOfTwo
          else if list_ex bad_size xs then Inl LayerSizeNotPositiveNumber
          else
            (case new_layers rnd c lr act 1 (the_number (hd xs)) (map the_number (tl xs)) [] of
               (ls, c') \<Rightarrow>
                 Inr (\<lparr> net_activation = act,
                        layerSizes = map the_number xs,
                        net_learningRate = lr,
                        layers = ls,
                        inputNames = (if js_truthy inNames then inNames else JArray []),
                        outputNames = (if js_truthy outNames then outNames else JArray []),
                        epoch = JUndefined \<rparr>,
                      c'))
      | _ \<Rightarrow> Inl LayerSizesNotArrayOfTwo)"


section \<open>Loading a persisted model\<close>

text \<open>
  \<open>loadFromFile\<close> fetches a resource and parses it as JSON; the model starts from the
  parsed document \<open>json\<close>. Reading a property of \<^verbatim>\<open>undefined\<close> or \<^verbatim>\<open>null\<close> is a
  \<^verbatim>\<open>TypeError\<close>. \<open>js_get\<close> reads a property by one of the names the loader uses
  (\<open>layerSizes\<close>, \<open>weights\<close>, \<open>biases\<close>, \<open>epoch\<close>, \<open>inputNames\<close>, \<open>outputNames\<close>,
  \<open>activations\<close>), none of which a number, boolean, string or array has; in an object
  parsed from JSON the last of several properties of one name counts. \<open>js_index\<close> reads
  at a numeric index and \<open>js_length\<close> reads the property \<open>length\<close>.
\<close>

fun js_get :: "jsval \<Rightarrow> string \<Rightarrow> error + jsval" where
  "js_get JUndefined k = Inl TypeError"
| "js_get JNull k = Inl TypeError"
| "js_get (JObject kv) k = Inr (case map_of (rev kv) k of Some v \<Rightarrow> v | None \<Rightarrow> JUndefined)"
| "js_get _ k = Inr JUndefined"

fun js_index :: "jsval \<Rightarrow> nat \<Rightarrow> error + jsval" where
  "js_index JUndefined i = Inl TypeError"
| "js_index JNull i = Inl TypeError"
| "js_index (JArray xs) i = Inr (if i < length xs then xs ! i else JUndefined)"
| "js_index (JString s) i = Inr (if i < length s then JString [s ! i] else JUndefined)"
| "js_index (JObject kv) i =
     Inr (case map_of (rev kv) (decimal i) of Some v \<Rightarrow> v | None \<Rightarrow> JUndefined)"
| "js_index _ i = Inr JUndefined"

fun js_length :: "jsval \<Rightarrow> error + jsval" where
  "js_length JUndefined = Inl TypeError"
| "js_length JNull = Inl TypeError"
| "js_length (JArray xs) = Inr (JNumber (Num (real (length xs))))"
| "js_length (JString s) = Inr (JNumber (Num (real (length s))))"
| "js_length (JObject kv) =
     Inr (case map_of (rev kv) ''length'' of Some v \<Rightarrow> v | None \<Rightarrow> JUndefined)"
| "js_length _ = Inr JUndefined"

text \<open>
  The weights and the bias of a neuron are numbers in the model. The loader stores
  whatever value the document holds; where that value is not a number the model stops
  with \<open>OutsideModel\<close>, which is no error of the program.
\<close>

datatype load_error = Thrown error | OutsideModel

fun numbers :: "jsval list \<Rightarrow> jsnum list option" where
  "numbers [] = Some []"
| "numbers (JNumber x # vs) = (case numbers vs of Some xs \<Rightarrow> Some (x # xs) | None \<Rightarrow> None)"
| "numbers (_ # vs) = None"

text \<open>The values \<open>w[0]\<close>, ..., \<open>w[n - 1]\<close> that the loop of \<open>setWeights\<close> reads.\<close>

fun read_indices :: "jsval \<Rightarrow> nat list \<Rightarrow> error + jsval list" where
  "read_indices w [] = Inr []"
| "read_indices w (i # is) =
     (case js_index w i of
        Inl e \<Rightarrow> Inl e
      | Inr v \<Rightarrow> (case read_indices w is of Inl e \<Rightarrow> Inl e | Inr vs \<Rightarrow> Inr (v # vs)))"

text \<open>
  \<^verbatim>\<open>neuron.setWeights(w)\<close> on a value of the document: \<^verbatim>\<open>w.length !== connections.length\<close>
  is a strict comparison, true unless \<open>w.length\<close> is that very number.
\<close>

definition setWeights_json :: "neuron \<Rightarrow> jsval \<Rightarrow> load_error + neuron" where
  "setWeights_json n w =
     (case js_length w of
        Inl e \<Rightarrow> Inl (Thrown e)
      | Inr len \<Rightarrow>
          if len \<noteq> JNumber (Num (real (length (connections n))))
          then Inl (Thrown WeightCountMismatch)
          else
            (case read_indices w [0..<length (connections n)] of
               Inl e \<Rightarrow> Inl (Thrown e)
             | Inr vs \<Rightarrow>
                 (case numbers vs of
                    None \<Rightarrow> Inl OutsideModel
                  | Some ws \<Rightarrow>
                      (case setWeights n ws of
                         (n', Some e) \<Rightarrow> Inl (Thrown e)
                       | (n', None) \<Rightarrow> Inr n'))))"

text \<open>
  The activation of a loaded neuron: sigmoid unless the document names an entry of the
  catalog. \<^verbatim>\<open>a.name === actName\<close> holds for a string only.
\<close>

definition find_activation :: "jsval \<Rightarrow> activation_fn" where
  "find_activation actName =
     (if js_truthy actName then
        (case find (\<lambda>a. JString (act_name a) = actName) ActivationFunctions of
           Some found \<Rightarrow> found
         | None \<Rightarrow> sigmoid)
      else sigmoid)"

text \<open>The body of the loop over \<open>i\<close>: one neuron of layer \<open>l\<close> (counted from 1).\<close>

definition load_neuron :: "(nat \<Rightarrow> real) \<Rightarrow> nat \<Rightarrow> jsval \<Rightarrow> jsval \<Rightarrow> jsval \<Rightarrow> jsnum \<Rightarrow> jsnum
    \<Rightarrow> nat \<Rightarrow> nat \<Rightarrow> load_error + neuron \<times> nat" where
  "load_neuron rnd c layerActivations ws bs inSize lr l i =
     (case js_index layerActivations i of
        Inl e \<Rightarrow> Inl (Thrown e)
      | Inr actName \<Rightarrow>
     (case Neuron_new rnd c inSize lr (find_activation actName) [] of
        (n, c') \<Rightarrow>
     (case js_index ws (l - 1) of
        Inl e \<Rightarrow> Inl (Thrown e)
      | Inr wl \<Rightarrow>
     (case js_index wl i of
        Inl e \<Rightarrow> Inl (Thrown e)
      | Inr w \<Rightarrow>
     (case setWeights_json n w of
        Inl e \<Rightarrow> Inl e
      | Inr n1 \<Rightarrow>
     (case js_index bs (l - 1) of
        Inl e \<Rightarrow> Inl (Thrown e)
      | Inr bl \<Rightarrow>
     (case js_index bl i of
        Inl e \<Rightarrow> Inl (Thrown e)
      | Inr (JNumber b) \<Rightarrow> Inr (setBias n1 b, c')
      | Inr _ \<Rightarrow> Inl OutsideModel)))))))"

fun load_layer :: "(nat \<Rightarrow> real) \<Rightarrow> nat \<Rightarrow> jsval \<Rightarrow> jsval \<Rightarrow> jsval \<Rightarrow> jsnum \<Rightarrow> jsnum
    \<Rightarrow> nat \<Rightarrow> nat \<Rightarrow> neuron list \<Rightarrow> load_error + neuron list \<times> nat" where
  "load_layer rnd c layerActivations ws bs inSize lr l 0 layer = Inr (layer, c)"
| "load_layer rnd c layerActivations ws bs inSize lr l (Suc k) layer =
     (case load_neuron rnd c layerActivations ws bs inSize lr l (length layer) of
        Inl e \<Rightarrow> Inl e
      | Inr (n, c') \<Rightarrow>
          load_layer rnd c' layerActivations ws bs inSize lr l k (layer @ [n]))"

text \<open>
  The loop over \<open>l\<close>; \<^verbatim>\<open>activationsData[l - 1] || []\<close> is the activation names of the
  layer.
\<close>

fun load_layers :: "(nat \<Rightarrow> real) \<Rightarrow> nat \<Rightarrow> jsval \<Rightarrow> jsval \<Rightarrow> jsval \<Rightarrow> jsnum \<Rightarrow> nat \<Rightarrow> jsnum
    \<Rightarrow> jsnum list \<Rightarrow> neuron list list \<Rightarrow> load_error + neuron list list" where
  "load_layers rnd c activationsData ws bs lr l inSize [] ls = Inr ls"
| "load_layers rnd c activationsData ws bs lr l inSize (outSize # sizes) ls =
     (case js_index activationsData (l - 1) of
        Inl e \<Rightarrow> Inl (Thrown e)
      | Inr la \<Rightarrow>
          (case load_layer rnd c (if js_truthy la then la else JArray []) ws bs inSize lr l
                  (iterations outSize) [] of
             Inl e \<Rightarrow> Inl e
           | Inr (layer, c') \<Rightarrow>
               load_layers rnd c' activationsData ws bs lr (Suc l) outSize sizes (ls @ [layer])))"

text \<open>
  \<open>loadFromFile\<close> is a method: \<open>this\<close> is the network it is invoked on, and the result
  pairs that network, as the call leaves it, with the error or the network returned.
  The four reads of the test are made in the order of the source, each only if the
  values before it are true. The network is built with the defaults of the
  constructor: learning rate \<open>0.1\<close>, sigmoid.
\<close>

definition required_fields :: "jsval \<Rightarrow> error + (jsval \<times> jsval \<times> jsval \<times> jsval)" where
  "required_fields json =
     (case js_get json ''layerSizes'' of
        Inl e \<Rightarrow> Inl e
      | Inr sizes \<Rightarrow>
          if \<not> js_truthy sizes then Inl InvalidModel
          else (case js_get json ''weights'' of
                  Inl e \<Rightarrow> Inl e
                | Inr ws \<Rightarrow>
                    if \<not> js_truthy ws then Inl InvalidModel
                    else (case js_get json ''biases'' of
                            Inl e \<Rightarrow> Inl e
                          | Inr bs \<Rightarrow>
                              if \<not> js_truthy bs then Inl InvalidModel
                              else (case js_get json ''epoch'' of
                                      Inl e \<Rightarrow> Inl e
                                    | Inr ep \<Rightarrow>
                                        if \<not> js_truthy ep then Inl InvalidModel
                                        else Inr (sizes, ws, bs, ep)))))"

definition the_field :: "jsval \<Rightarrow> string \<Rightarrow> jsval" where
  "the_field json k = (case js_get json k of Inr v \<Rightarrow> v | Inl e \<Rightarrow> JUndefined)"

definition load_model :: "(nat \<Rightarrow> real) \<Rightarrow> nat \<Rightarrow> jsval \<Rightarrow> load_error + network" where
  "load_model rnd c json =
     (case required_fields json of
        Inl e \<Rightarrow> Inl (Thrown e)
      | Inr (sizes, ws, bs, ep) \<Rightarrow>
          (case NeuralNetwork_new rnd c sizes (the_field json ''inputNames'')
                  (the_field json ''outputNames'') (Num (1/10)) sigmoid of
             Inl e \<Rightarrow> Inl (Thrown e)
           | Inr (network, c') \<Rightarrow>
               (let activationsData =
                      (if js_truthy (the_field json ''activations'')
                       then the_field json ''activations'' else JArray [])
                in case load_layers rnd c' activationsData ws bs (net_learningRate network) 1
                          (hd (layerSizes network)) (tl (layerSizes network)) [] of
                     Inl e \<Rightarrow> Inl e
                   | Inr ls \<Rightarrow> Inr (network\<lparr> epoch := ep, layers := ls \<rparr>))))"

definition loadFromFile :: "(nat \<Rightarrow> real) \<Rightarrow> nat \<Rightarrow> network \<Rightarrow> jsval
    \<Rightarrow> network \<times> (load_error + network)" where
  "loadFromFile rnd c this json = (this, load_model rnd c json)"


section \<open>Example objects\<close>

text \<open>
  Concrete objects on which the theorems below are instantiated. \<open>wired\<close> is the neuron
  \<^verbatim>\<open>new Neuron(0, 0.1, act, cs)\<close> after \<^verbatim>\<open>setBias(b)\<close>, named \<open>nm\<close>; the inherited weight
  array, which the constructor draws at random and the neuron never reads, is fixed to
  zeros.
\<close>

definition wired :: "string \<Rightarrow> activation_fn \<Rightarrow> connection list \<Rightarrow> jsnum \<Rightarrow> neuron" where
  "wired nm act cs b =
     \<lparr> learningRate = Num (1/10), weights = replicate (length cs) (Num 0), bias = b,
       activationThreshold = Num 0, disableThreshold = False, name = nm,
       connections = cs, activation = act \<rparr>"

text \<open>
  A dense network of sizes \<open>[2, 2, 1]\<close> with bounded-linear activation and learning
  rate \<open>0.5\<close>.
\<close>

definition example_network :: network where
  "example_network =
     \<lparr> net_activation = linearBounded, layerSizes = [Num 2, Num 2, Num 1],
       net_learningRate = Num (1/2),
       layers =
         [[wired ''A1'' linearBounded
             [\<lparr> index = 0, weight = Num (1/2) \<rparr>, \<lparr> index = 1, weight = Num (-1/2) \<rparr>] (Num 0),
           wired ''A2'' linearBounded
             [\<lparr> index = 0, weight = Num (1/4) \<rparr>, \<lparr> index = 1, weight = Num (1/4) \<rparr>] (Num 0)],
          [wired ''B1'' linearBounded
             [\<lparr> index = 0, weight = Num 1 \<rparr>, \<lparr> index = 1, weight = Num (-1) \<rparr>] (Num 0)]],
       inputNames = JArray [], outputNames = JArray [], epoch = JUndefined \<rparr>"


text \<open>
  The example network with the two connections of its output neuron listed in the
  other order: every connection keeps its source index and its weight, so
  \<open>Neuron.predict\<close> computes the same function.
\<close>

definition reordered_network :: network where
  "reordered_network =
     example_network\<lparr> layers :=
       [layers example_network ! 0,
        [wired ''B1'' linearBounded
           [\<lparr> index = 1, weight = Num (-1) \<rparr>, \<lparr> index = 0, weight = Num 1 \<rparr>] (Num 0)]] \<rparr>"

text \<open>
  A persisted model in the layout \<open>saveToFile\<close> writes, for sizes \<open>[2, 1]\<close>, with the
  epoch as a parameter.
\<close>

definition example_model :: "jsnum \<Rightarrow> jsval" where
  "example_model ep =
     JObject
       [(''epoch'', JNumber ep),
        (''layerSizes'', JArray [JNumber (Num 2), JNumber (Num 1)]),
        (''weights'', JArray [JArray [JArray [JNumber (Num (1/2)), JNumber (Num (-1/2))]]]),
        (''biases'', JArray [JArray [JNumber (Num (1/4))]]),
        (''inputNames'', JArray []),
        (''outputNames'', JArray []),
        (''activations'', JArray [JArray [JString ''relu'']])]"

text \<open>The network that loading \<open>example_model ep\<close> returns when it succeeds.\<close>

definition example_loaded :: "(nat \<Rightarrow> real) \<Rightarrow> jsval \<Rightarrow> network" where
  "example_loaded rnd ep =
     \<lparr> net_activation = sigmoid, layerSizes = [Num 2, Num 1], net_learningRate = Num (1/10),
       layers =
         [[\<lparr> learningRate = Num (1/10),
             weights = [Num (rnd 7 * 2 - 1), Num (rnd 8 * 2 - 1)],
             bias = Num (1/4),
             activationThreshold = Num 0, disableThreshold = False, name = ''Perceptron'',
             connections = [\<lparr> index = 0, weight = Num (1/2) \<rparr>, \<lparr> index = 1, weight = Num (-1/2) \<rparr>],
             activation = relu \<rparr>]],
       inputNames = JArray [], outputNames = JArray [], epoch = ep \<rparr>"

section \<open>The backward weights as the specification reads them\<close>

text \<open>
  The weight of the connection of a neuron whose source index is \<open>i\<close>, the first one if
  there are several, and the delta of the previous layer computed with it. Both follow
  the words of the specification, for comparison with \<open>next_delta\<close>: ``the weight of
  neuron j's connection whose sourceIndex equals i, not the weight at list position
  i''. A neuron without such a connection contributes nothing.
\<close>

definition spec_weight_from :: "neuron \<Rightarrow> nat \<Rightarrow> jsnum" where
  "spec_weight_from n i =
     (case find (\<lambda>c. index c = i) (connections n) of Some c \<Rightarrow> weight c | None \<Rightarrow> Num 0)"

definition spec_next_delta :: "neuron list \<Rightarrow> jsnum list \<Rightarrow> neuron list \<Rightarrow> jsnum list \<Rightarrow> jsnum list" where
  "spec_next_delta layer delta prevLayer prevZ =
     map (\<lambda>i. foldl (\<lambda>s j. s + spec_weight_from (layer ! j) i * js_nth delta j) (Num 0)
                 [0..<length layer]
               * act_df (activation (prevLayer ! i)) (prevZ ! i))
       [0..<length prevLayer]"


section \<open>Properties of the number model\<close>

lemma plus_NaN [simp]: "x + NaN = NaN" "NaN + x = NaN"
  by (cases x; simp)+

lemma minus_NaN [simp]: "x - NaN = NaN" "NaN - x = NaN"
  by (cases x; simp)+

lemma times_NaN [simp]: "x * NaN = NaN" "NaN * x = NaN"
  by (cases x; simp)+


section \<open>Properties of the perceptron\<close>












section \<open>Properties of the neuron\<close>

text \<open>The loop of \<open>setWeights\<close> overwrites the weights position by position.\<close>

lemma assign_weights_prefix:
  "n \<le> length ws \<Longrightarrow> n \<le> length cs \<Longrightarrow>
   foldl (\<lambda>c i. c[i := (c ! i)\<lparr> weight := ws ! i \<rparr>]) cs [0..<n]
     = map2 (\<lambda>c w. c\<lparr> weight := w \<rparr>) (take n cs) (take n ws) @ drop n cs"
proof (induction n)
  case 0
  show ?case by simp
next
  case (Suc n)
  then have n: "n < length ws" "n < length cs" by simp_all
  have IH: "foldl (\<lambda>c i. c[i := (c ! i)\<lparr> weight := ws ! i \<rparr>]) cs [0..<n]
     = map2 (\<lambda>c w. c\<lparr> weight := w \<rparr>) (take n cs) (take n ws) @ drop n cs"
    using Suc by simp
  show ?case
    unfolding upt_Suc_append[OF le0] foldl_append IH
    using n
    by (simp add: take_Suc_conv_app_nth list_update_append nth_append Cons_nth_drop_Suc[symmetric])
qed

lemma assign_weights_map2:
  "length ws = length cs \<Longrightarrow> assign_weights cs ws = map2 (\<lambda>c w. c\<lparr> weight := w \<rparr>) cs ws"
  using assign_weights_prefix[of "length ws" ws cs] by (simp add: assign_weights_def)

lemma getWeights_assign:
  "length ws = length cs \<Longrightarrow> map weight (assign_weights cs ws) = ws"
  by (auto simp: assign_weights_map2 intro!: nth_equalityI)

lemma index_assign:
  "length ws = length cs \<Longrightarrow> map index (assign_weights cs ws) = map index cs"
  by (auto simp: assign_weights_map2 intro!: nth_equalityI)

text \<open>
  Claim C7. \<open>setWeights\<close> with an array whose length differs from the number of
  connections fails and leaves the neuron as it was, so that \<open>getWeights\<close> returns the
  same values as before the call; with a matching length it does not fail and
  overwrites the connection weights positionally, in the order of the connection list,
  leaving every \<open>index\<close> as it was.
\<close>

theorem setWeights_length_checked:
  "(length ws \<noteq> length (connections n) \<longrightarrow>
      setWeights n ws = (n, Some WeightCountMismatch)
      \<and> getWeights (fst (setWeights n ws)) = getWeights n)
   \<and> (length ws = length (connections n) \<longrightarrow>
      snd (setWeights n ws) = None
      \<and> getWeights (fst (setWeights n ws)) = ws
      \<and> fst (setWeights n ws)
          = n\<lparr> connections := map2 (\<lambda>c w. c\<lparr> weight := w \<rparr>) (connections n) ws \<rparr>)"
proof (intro conjI impI)
  assume "length ws \<noteq> length (connections n)"
  then show "setWeights n ws = (n, Some WeightCountMismatch)"
    and "getWeights (fst (setWeights n ws)) = getWeights n"
    by (simp_all add: setWeights_def)
next
  assume eq: "length ws = length (connections n)"
  then show "snd (setWeights n ws) = None"
    by (simp add: setWeights_def)
  from eq show "getWeights (fst (setWeights n ws)) = ws"
    by (simp add: setWeights_def getWeights_def getWeights_assign)
  from eq show "fst (setWeights n ws)
      = n\<lparr> connections := map2 (\<lambda>c w. c\<lparr> weight := w \<rparr>) (connections n) ws \<rparr>"
    by (simp add: setWeights_def assign_weights_map2)
qed

theorem setWeights_length_checked_witness:
  "setWeights (wired ''A1'' sigmoid
        [\<lparr> index = 0, weight = Num (1/2) \<rparr>, \<lparr> index = 1, weight = Num (-1/4) \<rparr>] (Num 0))
      [Num 1, Num 2, Num 3]
     = (wired ''A1'' sigmoid
        [\<lparr> index = 0, weight = Num (1/2) \<rparr>, \<lparr> index = 1, weight = Num (-1/4) \<rparr>] (Num 0),
        Some WeightCountMismatch)
   \<and> connections (fst (setWeights (wired ''A1'' sigmoid
        [\<lparr> index = 0, weight = Num (1/2) \<rparr>, \<lparr> index = 1, weight = Num (-1/4) \<rparr>] (Num 0))
      [Num 1, Num 2]))
     = [\<lparr> index = 0, weight = Num 1 \<rparr>, \<lparr> index = 1, weight = Num 2 \<rparr>]"
  using setWeights_length_checked[of "[Num 1, Num 2, Num 3]" "wired ''A1'' sigmoid
        [\<lparr> index = 0, weight = Num (1/2) \<rparr>, \<lparr> index = 1, weight = Num (-1/4) \<rparr>] (Num 0)"]
    setWeights_length_checked[of "[Num 1, Num 2]" "wired ''A1'' sigmoid
        [\<lparr> index = 0, weight = Num (1/2) \<rparr>, \<lparr> index = 1, weight = Num (-1/4) \<rparr>] (Num 0)"]
  by (simp add: wired_def)

section \<open>Properties of backpropagate\<close>

text \<open>
  The setters called by the update of a neuron never throw: the new weights are mapped
  from \<open>getWeights()\<close>, so they are as many as the connections.
\<close>

lemma update_neuron_no_error: "snd (update_neuron lr d prevA n) = None"
  by (simp add: update_neuron_def setWeights_def getWeights_def Let_def)

lemma update_neuron_weights:
  "getWeights (fst (update_neuron lr d prevA n))
     = map (\<lambda>(k, w). w - lr * d * js_nth prevA k) (enumerate 0 (getWeights n))"
  by (simp add: update_neuron_def setWeights_def getWeights_def Let_def setBias_def
      getWeights_assign)

lemma update_neuron_bias:
  "getBias (fst (update_neuron lr d prevA n)) = getBias n - lr * d"
  by (simp add: update_neuron_def setWeights_def getWeights_def Let_def setBias_def getBias_def)

lemma update_neuron_activation:
  "activation (fst (update_neuron lr d prevA n)) = activation n"
  by (simp add: update_neuron_def setWeights_def getWeights_def Let_def setBias_def)

text \<open>The loop over the neurons of a layer, in closed form.\<close>

lemma update_layer_map:
  "update_layer lr delta prevA j ns
     = (map (\<lambda>(i, n). fst (update_neuron lr (js_nth delta i) prevA n)) (enumerate j ns), None)"
proof (induction ns arbitrary: j)
  case Nil
  show ?case by simp
next
  case (Cons n ns)
  obtain n' where n': "update_neuron lr (js_nth delta j) prevA n = (n', None)"
    using update_neuron_no_error[of lr "js_nth delta j" prevA n]
    by (cases "update_neuron lr (js_nth delta j) prevA n") simp
  show ?case
    by (simp add: n' Cons.IH)
qed

lemma update_layer_length: "length (fst (update_layer lr delta prevA j ns)) = length ns"
  by (simp add: update_layer_map)

lemma update_layer_nth:
  "i < length ns \<Longrightarrow>
   fst (update_layer lr delta prevA j ns) ! i
     = fst (update_neuron lr (js_nth delta (j + i)) prevA (ns ! i))"
  by (simp add: update_layer_map nth_enumerate_eq)


text \<open>
  The backward loop with \<open>m\<close> iterations left: it does not throw, leaves the layers from
  \<open>m\<close> on as they are, updates each layer \<open>l < m\<close> with the delta recorded at position
  \<open>l\<close> of the trace, and computes the delta of layer \<open>l - 1\<close> from the layer \<open>l\<close> of the
  result, that is after its update.
\<close>

lemma backward_post:
  "m \<le> length ls \<Longrightarrow>
   \<exists>ls' trace'. backward lr acts zs m ls delta trace = ((ls', trace'), None)
     \<and> length ls' = length ls
     \<and> length trace' = m + length trace
     \<and> drop m trace' = trace
     \<and> (\<forall>l. m \<le> l \<longrightarrow> l < length ls \<longrightarrow> ls' ! l = ls ! l)
     \<and> (\<forall>l<m. ls' ! l = fst (update_layer lr (trace' ! l) (acts ! l) 0 (ls ! l)))
     \<and> (0 < m \<longrightarrow> trace' ! (m - 1) = delta)
     \<and> (\<forall>l. 0 < l \<longrightarrow> l < m \<longrightarrow>
           trace' ! (l - 1) = next_delta (ls' ! l) (trace' ! l) (ls ! (l - 1)) (zs ! (l - 1)))"
proof (induction m arbitrary: ls delta trace)
  case 0
  show ?case by simp
next
  case (Suc l)
  then have l: "l < length ls" by simp
  define layer' where "layer' = fst (update_layer lr delta (acts ! l) 0 (ls ! l))"
  define ls1 where "ls1 = ls[l := layer']"
  define delta' where "delta' =
    (if 0 < l then next_delta (ls1 ! l) delta (ls1 ! (l - 1)) (zs ! (l - 1)) else delta)"
  have upd: "update_layer lr delta (acts ! l) 0 (ls ! l) = (layer', None)"
    by (simp add: layer'_def update_layer_map)
  have step: "backward lr acts zs (Suc l) ls delta trace
      = backward lr acts zs l ls1 delta' (delta # trace)"
    by (simp add: upd ls1_def delta'_def Let_def)
  have len1: "length ls1 = length ls" by (simp add: ls1_def)
  have at_l: "ls1 ! l = layer'" using l by (simp add: ls1_def)
  have other: "\<And>k. k \<noteq> l \<Longrightarrow> ls1 ! k = ls ! k" by (simp add: ls1_def)
  from Suc.IH[of ls1 delta' "delta # trace"] l len1
  obtain ls' trace' where
    run: "backward lr acts zs l ls1 delta' (delta # trace) = ((ls', trace'), None)"
    and len: "length ls' = length ls1"
    and tlen: "length trace' = l + length (delta # trace)"
    and dr: "drop l trace' = delta # trace"
    and keep: "\<forall>k. l \<le> k \<longrightarrow> k < length ls1 \<longrightarrow> ls' ! k = ls1 ! k"
    and upd_below: "\<forall>k<l. ls' ! k = fst (update_layer lr (trace' ! k) (acts ! k) 0 (ls1 ! k))"
    and top: "0 < l \<longrightarrow> trace' ! (l - 1) = delta'"
    and chain: "\<forall>k. 0 < k \<longrightarrow> k < l \<longrightarrow>
           trace' ! (k - 1) = next_delta (ls' ! k) (trace' ! k) (ls1 ! (k - 1)) (zs ! (k - 1))"
    by (auto simp: less_imp_le)
  have tr_l: "trace' ! l = delta"
    using dr by (rule nth_via_drop)
  have ls'_l: "ls' ! l = layer'"
    using keep l len1 at_l by simp
  have c1: "backward lr acts zs (Suc l) ls delta trace = ((ls', trace'), None)"
    using step run by simp
  have c2: "length ls' = length ls" using len len1 by simp
  have c3: "length trace' = Suc l + length trace" using tlen by simp
  have c4: "drop (Suc l) trace' = trace"
    using dr by (metis drop_Suc list.sel(3) tl_drop)
  have c5: "\<forall>k. Suc l \<le> k \<longrightarrow> k < length ls \<longrightarrow> ls' ! k = ls ! k"
    using keep other len1 by simp
  have c6: "\<forall>k<Suc l. ls' ! k = fst (update_layer lr (trace' ! k) (acts ! k) 0 (ls ! k))"
  proof (intro allI impI)
    fix k assume "k < Suc l"
    then consider "k < l" | "k = l" by linarith
    then show "ls' ! k = fst (update_layer lr (trace' ! k) (acts ! k) 0 (ls ! k))"
    proof cases
      case 1
      then show ?thesis using upd_below other[of k] by simp
    next
      case 2
      then show ?thesis using ls'_l tr_l by (simp add: layer'_def)
    qed
  qed
  have c7: "0 < Suc l \<longrightarrow> trace' ! (Suc l - 1) = delta" using tr_l by simp
  have c8: "\<forall>k. 0 < k \<longrightarrow> k < Suc l \<longrightarrow>
           trace' ! (k - 1) = next_delta (ls' ! k) (trace' ! k) (ls ! (k - 1)) (zs ! (k - 1))"
  proof (intro allI impI)
    fix k assume k: "0 < k" "k < Suc l"
    then consider "k < l" | "k = l" by linarith
    then show "trace' ! (k - 1) = next_delta (ls' ! k) (trace' ! k) (ls ! (k - 1)) (zs ! (k - 1))"
    proof cases
      case 1
      then have "k - 1 \<noteq> l" by simp
      then show ?thesis using chain k 1 other[of "k - 1"] by simp
    next
      case 2
      then have "0 < l" using k by simp
      then have "trace' ! (l - 1) = next_delta (ls1 ! l) delta (ls1 ! (l - 1)) (zs ! (l - 1))"
        using top by (simp add: delta'_def)
      moreover have "ls1 ! (l - 1) = ls ! (l - 1)" using \<open>0 < l\<close> other[of "l - 1"] by simp
      ultimately show ?thesis using 2 ls'_l tr_l at_l by simp
    qed
  qed
  show ?case
    using c1 c2 c3 c4 c5 c6 c7 c8 by blast
qed


text \<open>
  The forward pass appends one vector of sums and one of activations per layer, each of
  the size of its layer.
\<close>

lemma forward_shape:
  "\<exists>A Z. forward ls acts zs = (acts @ A, zs @ Z)
     \<and> map length A = map length ls \<and> map length Z = map length ls"
proof (induction ls arbitrary: acts zs)
  case Nil
  show ?case by simp
next
  case (Cons layer rest)
  define z where "z = map (\<lambda>n. forward_z n (last acts)) layer"
  define a where "a = map2 Neuron_activate layer z"
  obtain A Z where r: "forward rest (acts @ [a]) (zs @ [z]) = ((acts @ [a]) @ A, (zs @ [z]) @ Z)"
    and s: "map length A = map length rest" "map length Z = map length rest"
    using Cons.IH[of "acts @ [a]" "zs @ [z]"] by blast
  have "forward (layer # rest) acts zs = (acts @ (a # A), zs @ (z # Z))"
    using r by (simp add: z_def a_def Let_def)
  moreover have "map length (a # A) = map length (layer # rest)"
    using s by (simp add: a_def z_def)
  moreover have "map length (z # Z) = map length (layer # rest)"
    using s by (simp add: z_def)
  ultimately show ?case by blast
qed


text \<open>
  What the forward pass retains: the input as the activation of layer 0, and for every
  layer the sums of its neurons over \<open>acts ! l\<close> and their activations.
\<close>

lemma forward_content:
  "forward ls acts0 zs0 = (acts, zs) \<Longrightarrow> length acts0 = Suc (length zs0) \<Longrightarrow>
   take (length acts0) acts = acts0 \<and> take (length zs0) zs = zs0
   \<and> length acts = length acts0 + length ls \<and> length zs = length zs0 + length ls
   \<and> (\<forall>l<length ls.
         zs ! (length zs0 + l) = map (\<lambda>n. forward_z n (acts ! (length zs0 + l))) (ls ! l)
         \<and> acts ! (length acts0 + l) = map2 Neuron_activate (ls ! l) (zs ! (length zs0 + l)))"
proof (induction ls arbitrary: acts0 zs0)
  case Nil
  then show ?case by auto
next
  case (Cons layer rest)
  define z where "z = map (\<lambda>n. forward_z n (last acts0)) layer"
  define a where "a = map2 Neuron_activate layer z"
  have run: "forward rest (acts0 @ [a]) (zs0 @ [z]) = (acts, zs)"
    using Cons.prems(1) by (simp add: z_def a_def Let_def)
  have len: "length (acts0 @ [a]) = Suc (length (zs0 @ [z]))"
    using Cons.prems(2) by simp
  note IH = Cons.IH[OF run len]
  have ta: "take (Suc (length acts0)) acts = acts0 @ [a]" using IH by simp
  have tz: "take (Suc (length zs0)) zs = zs0 @ [z]" using IH by simp
  have la: "length acts = Suc (length acts0) + length rest" using IH by simp
  have lz: "length zs = Suc (length zs0) + length rest" using IH by simp
  have rest: "\<forall>l<length rest.
         zs ! (Suc (length zs0) + l) = map (\<lambda>n. forward_z n (acts ! (Suc (length zs0) + l))) (rest ! l)
         \<and> acts ! (Suc (length acts0) + l)
             = map2 Neuron_activate (rest ! l) (zs ! (Suc (length zs0) + l))"
    using IH by simp
  have a0: "take (length acts0) acts = acts0"
  proof -
    have "take (length acts0) acts = take (length acts0) (take (Suc (length acts0)) acts)"
      by simp
    then show ?thesis unfolding ta by simp
  qed
  have z0: "take (length zs0) zs = zs0"
  proof -
    have "take (length zs0) zs = take (length zs0) (take (Suc (length zs0)) zs)"
      by simp
    then show ?thesis unfolding tz by simp
  qed
  have an: "acts ! length acts0 = a"
    using ta by (metis lessI nth_append_length nth_take)
  have zn: "zs ! length zs0 = z"
    using tz by (metis lessI nth_append_length nth_take)
  have acts0_ne: "acts0 \<noteq> []" using Cons.prems(2) by auto
  have "acts ! length zs0 = acts0 ! length zs0"
    using a0 Cons.prems(2) by (metis lessI nth_take)
  then have prev: "acts ! length zs0 = last acts0"
    using Cons.prems(2) acts0_ne by (simp add: last_conv_nth)
  have all: "\<forall>l<length (layer # rest).
         zs ! (length zs0 + l) = map (\<lambda>n. forward_z n (acts ! (length zs0 + l))) ((layer # rest) ! l)
         \<and> acts ! (length acts0 + l)
             = map2 Neuron_activate ((layer # rest) ! l) (zs ! (length zs0 + l))"
  proof (intro allI impI)
    fix l assume "l < length (layer # rest)"
    show "zs ! (length zs0 + l) = map (\<lambda>n. forward_z n (acts ! (length zs0 + l))) ((layer # rest) ! l)
         \<and> acts ! (length acts0 + l)
             = map2 Neuron_activate ((layer # rest) ! l) (zs ! (length zs0 + l))"
    proof (cases l)
      case 0
      then show ?thesis using an zn prev by (simp add: z_def a_def)
    next
      case (Suc l')
      then have "l' < length rest" using \<open>l < length (layer # rest)\<close> by simp
      then show ?thesis using rest Suc by simp
    qed
  qed
  show ?case using a0 z0 la lz all by simp
qed

lemma forward_pass:
  assumes "forward ls [input] [] = (acts, zs)"
  shows "acts ! 0 = input"
    and "l < length ls \<Longrightarrow> zs ! l = map (\<lambda>n. forward_z n (acts ! l)) (ls ! l)"
    and "l < length ls \<Longrightarrow> acts ! Suc l = map2 Neuron_activate (ls ! l) (zs ! l)"
proof -
  note F = forward_content[OF assms, simplified]
  from F have "take (Suc 0) acts = [input]" by simp
  then show "acts ! 0 = input"
    by (metis lessI nth_Cons_0 nth_take)
  show "l < length ls \<Longrightarrow> zs ! l = map (\<lambda>n. forward_z n (acts ! l)) (ls ! l)"
    using F by simp
  show "l < length ls \<Longrightarrow> acts ! Suc l = map2 Neuron_activate (ls ! l) (zs ! l)"
    using F by simp
qed

text \<open>The whole of \<open>backpropagate\<close> on a network with at least one layer.\<close>

lemma backpropagate_trace_post:
  assumes ne: "layers net \<noteq> []"
    and fw: "forward (layers net) [input] [] = (acts, zs)"
  shows "\<exists>ls' trace. backpropagate_trace net input target = ((net\<lparr> layers := ls' \<rparr>, trace), None)
     \<and> length ls' = length (layers net)
     \<and> length trace = length (layers net)
     \<and> last trace = output_delta (last (layers net)) (last acts) (last zs) target
     \<and> (\<forall>l<length (layers net).
           ls' ! l = fst (update_layer (net_learningRate net) (trace ! l) (acts ! l) 0
                            (layers net ! l)))
     \<and> (\<forall>l. 0 < l \<longrightarrow> l < length (layers net) \<longrightarrow>
           trace ! (l - 1) = next_delta (ls' ! l) (trace ! l) (layers net ! (l - 1)) (zs ! (l - 1)))
     \<and> (\<forall>l<length (layers net). length (trace ! l) = length (layers net ! l))
     \<and> length (last acts) = length (last (layers net))"
proof -
  let ?n = "length (layers net)"
  let ?d = "output_delta (last (layers net)) (last acts) (last zs) target"
  obtain A Z where AZ: "acts = [input] @ A" "zs = Z"
    and shape: "map length A = map length (layers net)" "map length Z = map length (layers net)"
    using forward_shape[of "layers net" "[input]" "[]"] fw by auto
  have "A \<noteq> []" using shape ne by auto
  then have lastA: "last acts = last A" using AZ by simp
  have "last (map length A) = last (map length (layers net))" using shape by simp
  then have lenlast: "length (last acts) = length (last (layers net))"
    using lastA \<open>A \<noteq> []\<close> ne by (simp add: last_map)
  obtain ls' trace where
    run: "backward (net_learningRate net) acts zs ?n (layers net) ?d [] = ((ls', trace), None)"
    and len: "length ls' = ?n" and tlen: "length trace = ?n + length ([]::jsnum list list)"
    and upd: "\<forall>l<?n. ls' ! l = fst (update_layer (net_learningRate net) (trace ! l) (acts ! l) 0
                            (layers net ! l))"
    and top: "0 < ?n \<longrightarrow> trace ! (?n - 1) = ?d"
    and chain: "\<forall>l. 0 < l \<longrightarrow> l < ?n \<longrightarrow>
           trace ! (l - 1) = next_delta (ls' ! l) (trace ! l) (layers net ! (l - 1)) (zs ! (l - 1))"
    using backward_post[of ?n "layers net" "net_learningRate net" acts zs ?d "[]"] by blast
  have tl: "length trace = ?n" using tlen by simp
  have pos: "0 < ?n" using ne by simp
  have tne: "trace \<noteq> []" using tl pos by auto
  have lastt: "last trace = ?d"
    using top pos tl tne by (simp add: last_conv_nth)
  have res: "backpropagate_trace net input target = ((net\<lparr> layers := ls' \<rparr>, trace), None)"
    using ne fw run by (simp add: backpropagate_trace_def Let_def)
  have sizes: "\<forall>l<?n. length (trace ! l) = length (layers net ! l)"
  proof (intro allI impI)
    fix l assume l: "l < ?n"
    show "length (trace ! l) = length (layers net ! l)"
    proof (cases "Suc l = ?n")
      case True
      then have "?n - 1 = l" by simp
      then have "trace ! l = ?d" using top pos by simp
      moreover have "last (layers net) = layers net ! l"
        using True ne by (metis diff_Suc_1 last_conv_nth)
      ultimately show ?thesis using lenlast by (simp add: output_delta_def)
    next
      case False
      then have "0 < Suc l" "Suc l < ?n" using l by simp_all
      then have "trace ! (Suc l - 1)
          = next_delta (ls' ! Suc l) (trace ! Suc l) (layers net ! (Suc l - 1)) (zs ! (Suc l - 1))"
        using chain by blast
      then show ?thesis by (simp add: next_delta_def)
    qed
  qed
  show ?thesis
    using res len tl lastt upd chain sizes lenlast by blast
qed


text \<open>
  Claim C1. Let \<open>acts\<close> and \<open>zs\<close> be the activations and sums retained by the forward
  pass (the input, then for each layer the sums of its neurons over the previous
  activations and their images under the neurons' activation functions), and let the
  input and the target be in range: every weight position of a neuron
  of layer \<open>l\<close> has an entry in \<open>acts ! l\<close> (the input for \<open>l = 0\<close>), and the target has an
  entry for every output neuron. Then \<open>backpropagate\<close> does not throw; the delta of the
  output layer is \<open>delta[j] = (a_final[j] - target[j]) * df(z_final[j])\<close> with the
  derivative of output neuron \<open>j\<close> itself; and every layer \<open>l\<close> is updated with the delta
  \<open>trace ! l\<close> the loop holds for it: the \<open>k\<close>-th weight of neuron \<open>j\<close> becomes
  \<open>weight - learningRate * delta[j] * prevActivation[k]\<close>, computed from the weight before
  the call and the activation of the forward pass, the number of weights is unchanged,
  and the bias becomes \<open>bias - learningRate * delta[j]\<close>.
\<close>

theorem backpropagate_update_rule:
  assumes ne: "layers net \<noteq> []"
    and fw: "forward (layers net) [input] [] = (acts, zs)"
    and run: "backpropagate_trace net input target = ((net', trace), e)"
    and in_range: "\<forall>l<length (layers net). \<forall>n\<in>set (layers net ! l).
                     length (connections n) \<le> length (acts ! l)"
    and target_range: "length (last (layers net)) \<le> length target"
  shows "e = None \<and> backpropagate net input target = (net', None)
     \<and> acts ! 0 = input
     \<and> (\<forall>l<length (layers net).
           zs ! l = map (\<lambda>n. forward_z n (acts ! l)) (layers net ! l)
           \<and> acts ! Suc l = map2 Neuron_activate (layers net ! l) (zs ! l))
     \<and> length trace = length (layers net)
     \<and> (\<forall>j<length (last (layers net)).
           last trace ! j
             = (last acts ! j - target ! j)
               * activationDerivative (last (layers net) ! j) (last zs ! j))
     \<and> (\<forall>l<length (layers net). \<forall>j<length (layers net ! l).
           (\<forall>k<length (getWeights (layers net ! l ! j)).
              getWeights (layers net' ! l ! j) ! k
                = getWeights (layers net ! l ! j) ! k
                  - net_learningRate net * (trace ! l ! j) * (acts ! l ! k))
           \<and> length (getWeights (layers net' ! l ! j)) = length (getWeights (layers net ! l ! j))
           \<and> getBias (layers net' ! l ! j)
                = getBias (layers net ! l ! j) - net_learningRate net * (trace ! l ! j))"
proof -
  obtain ls' tr where
    res: "backpropagate_trace net input target = ((net\<lparr> layers := ls' \<rparr>, tr), None)"
    and tl: "length tr = length (layers net)"
    and lastt: "last tr = output_delta (last (layers net)) (last acts) (last zs) target"
    and upd: "\<forall>l<length (layers net).
           ls' ! l = fst (update_layer (net_learningRate net) (tr ! l) (acts ! l) 0
                            (layers net ! l))"
    and sizes: "\<forall>l<length (layers net). length (tr ! l) = length (layers net ! l)"
    and lenlast: "length (last acts) = length (last (layers net))"
    using backpropagate_trace_post[OF ne fw, of target] by blast
  have eqs: "net' = net\<lparr> layers := ls' \<rparr>" "trace = tr" "e = None"
    using res run by simp_all
  have a: "backpropagate net input target = (net', None)"
    using res eqs by (simp add: backpropagate_def)
  have b: "\<forall>j<length (last (layers net)).
           last trace ! j
             = (last acts ! j - target ! j)
               * activationDerivative (last (layers net) ! j) (last zs ! j)"
    using lastt lenlast target_range eqs
    by (simp add: output_delta_def js_nth_def activationDerivative_def)
  have c: "\<forall>l<length (layers net). \<forall>j<length (layers net ! l).
           (\<forall>k<length (getWeights (layers net ! l ! j)).
              getWeights (layers net' ! l ! j) ! k
                = getWeights (layers net ! l ! j) ! k
                  - net_learningRate net * (trace ! l ! j) * (acts ! l ! k))
           \<and> length (getWeights (layers net' ! l ! j)) = length (getWeights (layers net ! l ! j))
           \<and> getBias (layers net' ! l ! j)
                = getBias (layers net ! l ! j) - net_learningRate net * (trace ! l ! j)"
  proof (intro allI impI)
    fix l j assume l: "l < length (layers net)" and j: "j < length (layers net ! l)"
    let ?n = "layers net ! l ! j"
    have dj: "js_nth (tr ! l) j = tr ! l ! j" using sizes l j by (simp add: js_nth_def)
    have new: "ls' ! l ! j
        = fst (update_neuron (net_learningRate net) (tr ! l ! j) (acts ! l) ?n)"
      using upd l j dj by (simp add: update_layer_nth)
    have "?n \<in> set (layers net ! l)" using j by simp
    then have wide: "length (getWeights ?n) \<le> length (acts ! l)"
      using in_range l by (simp add: getWeights_def)
    have w: "\<forall>k<length (getWeights ?n).
              getWeights (layers net' ! l ! j) ! k
                = getWeights ?n ! k - net_learningRate net * (trace ! l ! j) * (acts ! l ! k)"
      using wide eqs by (simp add: new update_neuron_weights nth_enumerate_eq js_nth_def)
    have len: "length (getWeights (layers net' ! l ! j)) = length (getWeights ?n)"
      using eqs by (simp add: new update_neuron_weights)
    have bi: "getBias (layers net' ! l ! j)
                = getBias ?n - net_learningRate net * (trace ! l ! j)"
      using eqs by (simp add: new update_neuron_bias)
    show "(\<forall>k<length (getWeights ?n).
              getWeights (layers net' ! l ! j) ! k
                = getWeights ?n ! k - net_learningRate net * (trace ! l ! j) * (acts ! l ! k))
           \<and> length (getWeights (layers net' ! l ! j)) = length (getWeights ?n)
           \<and> getBias (layers net' ! l ! j)
                = getBias ?n - net_learningRate net * (trace ! l ! j)"
      using w len bi by blast
  qed
  have f0: "acts ! 0 = input"
    using forward_pass(1)[OF fw] .
  have f1: "\<forall>l<length (layers net).
           zs ! l = map (\<lambda>n. forward_z n (acts ! l)) (layers net ! l)
           \<and> acts ! Suc l = map2 Neuron_activate (layers net ! l) (zs ! l)"
    using forward_pass(2,3)[OF fw] by blast
  show ?thesis using eqs a tl b c f0 f1 by blast
qed

text \<open>
  Claim C4. For every layer \<open>l > 0\<close> the layer \<open>l\<close> of the network that \<open>backpropagate\<close>
  returns is the layer updated with its delta, and the delta of layer \<open>l - 1\<close> is
  \<open>(\<Sum>j. w[j][i] * delta[j]) * df(prevZ[i])\<close> where \<open>w[j]\<close> are the weights of neuron \<open>j\<close> in
  that returned layer: the weights after the update, not those of the forward pass.
\<close>

theorem next_delta_from_updated_weights:
  assumes ne: "layers net \<noteq> []"
    and fw: "forward (layers net) [input] [] = (acts, zs)"
    and run: "backpropagate_trace net input target = ((net', trace), e)"
  shows "\<forall>l. 0 < l \<longrightarrow> l < length (layers net) \<longrightarrow>
     layers net' ! l
       = fst (update_layer (net_learningRate net) (trace ! l) (acts ! l) 0 (layers net ! l))
     \<and> trace ! (l - 1)
       = map (\<lambda>i. foldl (\<lambda>s j. s + js_nth (getWeights (layers net' ! l ! j)) i
                                     * js_nth (trace ! l) j)
                    (Num 0) [0..<length (layers net' ! l)]
                  * act_df (activation (layers net ! (l - 1) ! i)) (zs ! (l - 1) ! i))
           [0..<length (layers net ! (l - 1))]"
proof (intro allI impI)
  fix l assume l: "0 < l" "l < length (layers net)"
  obtain ls' tr where
    res: "backpropagate_trace net input target = ((net\<lparr> layers := ls' \<rparr>, tr), None)"
    and upd: "\<forall>l<length (layers net).
           ls' ! l = fst (update_layer (net_learningRate net) (tr ! l) (acts ! l) 0
                            (layers net ! l))"
    and chain: "\<forall>l. 0 < l \<longrightarrow> l < length (layers net) \<longrightarrow>
           tr ! (l - 1) = next_delta (ls' ! l) (tr ! l) (layers net ! (l - 1)) (zs ! (l - 1))"
    using backpropagate_trace_post[OF ne fw, of target] by blast
  have eqs: "net' = net\<lparr> layers := ls' \<rparr>" "trace = tr"
    using res run by simp_all
  have "layers net' ! l
       = fst (update_layer (net_learningRate net) (trace ! l) (acts ! l) 0 (layers net ! l))"
    using upd l eqs by simp
  moreover have "trace ! (l - 1)
      = next_delta (layers net' ! l) (trace ! l) (layers net ! (l - 1)) (zs ! (l - 1))"
    using chain l eqs by simp
  ultimately show "layers net' ! l
       = fst (update_layer (net_learningRate net) (trace ! l) (acts ! l) 0 (layers net ! l))
     \<and> trace ! (l - 1)
       = map (\<lambda>i. foldl (\<lambda>s j. s + js_nth (getWeights (layers net' ! l ! j)) i
                                     * js_nth (trace ! l) j)
                    (Num 0) [0..<length (layers net' ! l)]
                  * act_df (activation (layers net ! (l - 1) ! i)) (zs ! (l - 1) ! i))
           [0..<length (layers net ! (l - 1))]"
    by (simp add: next_delta_def)
qed


text \<open>The run of \<open>backpropagate\<close> on the example network, input \<open>[1, 1]\<close>, target \<open>[1]\<close>.\<close>

lemmas example_eval =
  example_network_def wired_def forward_z_def getWeights_def getBias_def
  enumerate_eq_zip Neuron_activate_def linearBounded_def output_delta_def js_nth_def
  update_layer_map update_neuron_def setWeights_def assign_weights_def setBias_def
  next_delta_def Let_def

lemma example_forward:
  "forward (layers example_network) [[Num 1, Num 1]] []
     = ([[Num 1, Num 1], [Num 0, Num (1/2)], [Num (-1/2)]], [[Num 0, Num (1/2)], [Num (-1/2)]])"
  by (simp add: example_eval upt_rec[of 0])

lemma example_run:
  "backpropagate_trace example_network [Num 1, Num 1] [Num 1]
     = ((example_network\<lparr> layers :=
           [[wired ''A1'' linearBounded
               [\<lparr> index = 0, weight = Num (5/4) \<rparr>, \<lparr> index = 1, weight = Num (1/4) \<rparr>] (Num (3/4)),
             wired ''A2'' linearBounded
               [\<lparr> index = 0, weight = Num (-7/32) \<rparr>, \<lparr> index = 1, weight = Num (-7/32) \<rparr>]
               (Num (-15/32))],
            [wired ''B1'' linearBounded
               [\<lparr> index = 0, weight = Num 1 \<rparr>, \<lparr> index = 1, weight = Num (-5/8) \<rparr>] (Num (3/4))]] \<rparr>,
         [[Num (-3/2), Num (15/16)], [Num (-3/2)]]), None)"
  by (simp add: backpropagate_trace_def example_eval upt_rec[of 0])


text \<open>
  Claim C1 on the example: the hypotheses hold, and for instance the first weight of
  \<open>A2\<close> goes from \<open>1/4\<close> to \<open>1/4 - 0.5 * (15/16) * 1 = -7/32\<close>.
\<close>

theorem backpropagate_update_rule_witness:
  "layers example_network \<noteq> []
   \<and> length (last (layers example_network)) \<le> length [Num 1]
   \<and> backpropagate example_network [Num 1, Num 1] [Num 1]
       = (example_network\<lparr> layers :=
           [[wired ''A1'' linearBounded
               [\<lparr> index = 0, weight = Num (5/4) \<rparr>, \<lparr> index = 1, weight = Num (1/4) \<rparr>] (Num (3/4)),
             wired ''A2'' linearBounded
               [\<lparr> index = 0, weight = Num (-7/32) \<rparr>, \<lparr> index = 1, weight = Num (-7/32) \<rparr>]
               (Num (-15/32))],
            [wired ''B1'' linearBounded
               [\<lparr> index = 0, weight = Num 1 \<rparr>, \<lparr> index = 1, weight = Num (-5/8) \<rparr>] (Num (3/4))]] \<rparr>,
          None)
   \<and> Num (-7/32) = Num (1/4) - Num (1/2) * Num (15/16) * Num 1
   \<and> Num (-5/8) = Num (-1) - Num (1/2) * Num (-3/2) * Num (1/2)
   \<and> Num (-3/2) = (Num (-1/2) - Num 1) * activationDerivative
         (wired ''B1'' linearBounded
               [\<lparr> index = 0, weight = Num 1 \<rparr>, \<lparr> index = 1, weight = Num (-1) \<rparr>] (Num 0))
         (Num (-1/2))"
proof -
  have h1: "layers example_network \<noteq> []"
    by (simp add: example_network_def)
  have h4: "\<forall>l<length (layers example_network). \<forall>n\<in>set (layers example_network ! l).
      length (connections n)
        \<le> length ([[Num 1, Num 1], [Num 0, Num (1/2)], [Num (-1/2)]] ! l)"
    by (auto simp: example_network_def wired_def less_Suc_eq)
  have h5: "length (last (layers example_network)) \<le> length [Num 1]"
    by (simp add: example_network_def)
  note T = backpropagate_update_rule[OF h1 example_forward example_run h4 h5]
  from T have run: "backpropagate example_network [Num 1, Num 1] [Num 1]
       = (example_network\<lparr> layers :=
           [[wired ''A1'' linearBounded
               [\<lparr> index = 0, weight = Num (5/4) \<rparr>, \<lparr> index = 1, weight = Num (1/4) \<rparr>] (Num (3/4)),
             wired ''A2'' linearBounded
               [\<lparr> index = 0, weight = Num (-7/32) \<rparr>, \<lparr> index = 1, weight = Num (-7/32) \<rparr>]
               (Num (-15/32))],
            [wired ''B1'' linearBounded
               [\<lparr> index = 0, weight = Num 1 \<rparr>, \<lparr> index = 1, weight = Num (-5/8) \<rparr>] (Num (3/4))]] \<rparr>,
          None)"
    by blast
  from T have out: "\<forall>j<length (last (layers example_network)).
      last [[Num (-3/2), Num (15/16)], [Num (-3/2)]] ! j
        = (last [[Num 1, Num 1], [Num 0, Num (1/2)], [Num (-1/2)]] ! j - [Num 1] ! j)
          * activationDerivative (last (layers example_network) ! j)
              (last [[Num 0, Num (1/2)], [Num (-1/2)]] ! j)"
    by blast
  from out have o: "Num (-3/2) = (Num (-1/2) - Num 1) * activationDerivative
         (wired ''B1'' linearBounded
               [\<lparr> index = 0, weight = Num 1 \<rparr>, \<lparr> index = 1, weight = Num (-1) \<rparr>] (Num 0))
         (Num (-1/2))"
    by (simp add: example_network_def)
  show ?thesis using h1 h5 run o by simp
qed


text \<open>
  Claim C4 on the example: the delta of the hidden layer is the one computed from the
  updated output weights \<open>[1, -5/8]\<close>; the weights \<open>[1, -1]\<close> of the forward pass would
  give \<open>3/2\<close> instead of \<open>15/16\<close> for the second hidden neuron.
\<close>

theorem next_delta_from_updated_weights_witness:
  "layers example_network \<noteq> []
   \<and> snd (fst (backpropagate_trace example_network [Num 1, Num 1] [Num 1])) ! 0
       = [Num (-3/2), Num (15/16)]
   \<and> next_delta (layers (fst (fst (backpropagate_trace example_network [Num 1, Num 1] [Num 1]))) ! 1)
         [Num (-3/2)] (layers example_network ! 0) [Num 0, Num (1/2)]
       = [Num (-3/2), Num (15/16)]
   \<and> next_delta (layers example_network ! 1)
         [Num (-3/2)] (layers example_network ! 0) [Num 0, Num (1/2)]
       = [Num (-3/2), Num (3/2)]"
proof -
  have h1: "layers example_network \<noteq> []"
    by (simp add: example_network_def)
  have l: "0 < (1::nat)" "1 < length (layers example_network)"
    by (simp_all add: example_network_def)
  note T = next_delta_from_updated_weights[OF h1 example_forward example_run,
      rule_format, OF l, THEN conjunct2]
  have a: "next_delta (layers (fst (fst (backpropagate_trace example_network [Num 1, Num 1] [Num 1]))) ! 1)
         [Num (-3/2)] (layers example_network ! 0) [Num 0, Num (1/2)]
       = [Num (-3/2), Num (15/16)]"
    unfolding example_run next_delta_def using T by (simp add: js_nth_def)
  have b: "next_delta (layers example_network ! 1)
         [Num (-3/2)] (layers example_network ! 0) [Num 0, Num (1/2)]
       = [Num (-3/2), Num (3/2)]"
    by (simp add: example_eval upt_rec[of 0])
  show ?thesis using h1 a b by (simp add: example_run)
qed


section \<open>Properties of construction and loading\<close>

text \<open>
  The constructor fails exactly when \<open>layerSizes\<close> is not an array, has fewer than two
  entries, or has an entry that is not a number or is \<open>\<le> 0\<close>. Nothing tests that a size
  is an integer.
\<close>

lemma NeuralNetwork_new_fails_iff:
  "(\<exists>e. NeuralNetwork_new rnd c sizes inNames outNames lr act = Inl e)
     \<longleftrightarrow> (\<forall>xs. sizes = JArray xs \<longrightarrow> length xs < 2 \<or> list_ex bad_size xs)"
  by (cases sizes) (auto simp: NeuralNetwork_new_def split: prod.splits)

text \<open>The first neuron of the first layer is named \<open>A1\<close>.\<close>

lemma neuron_name_A1: "neuron_name (Suc 0) 0 = ''A1''"
  by (simp add: neuron_name_def decimal.simps[of "Suc 0"] char_of_def bit_0)

text \<open>
  Claim C8 says that construction fails with a validation error exactly when
  \<open>layerSizes\<close> is not a sequence of at least two positive integers, a non-integer
  entry included. The code does not do so: on \<open>layerSizes = [2.5, 1]\<close> the constructor
  throws nothing and returns a network of one neuron with two connections.
\<close>

theorem constructor_accepts_fractional_size:
  "NeuralNetwork_new rnd 0 (JArray [JNumber (Num (5/2)), JNumber (Num 1)]) JNull JNull
       (Num (1/10)) sigmoid
     = Inr (\<lparr> net_activation = sigmoid,
               layerSizes = [Num (5/2), Num 1],
               net_learningRate = Num (1/10),
               layers =
                 [[\<lparr> learningRate = Num (1/10),
                     weights = [Num (rnd 2 * 2 - 1), Num (rnd 3 * 2 - 1)],
                     bias = Num (rnd 4 * 2 - 1),
                     activationThreshold = Num 0, disableThreshold = False, name = ''A1'',
                     connections = [\<lparr> index = 0, weight = Num (rnd 0 * 2 - 1) \<rparr>,
                                    \<lparr> index = 1, weight = Num (rnd 1 * 2 - 1) \<rparr>],
                     activation = sigmoid \<rparr>]],
               inputNames = JArray [], outputNames = JArray [], epoch = JUndefined \<rparr>, 5)"
  by (simp add: NeuralNetwork_new_def Neuron_new_def Perceptron_new_def draws_def Let_def
      neuron_name_A1 enumerate_eq_zip upt_rec[of 0] eval_nat_numeral)


text \<open>Loading the example model with epoch 1 succeeds.\<close>

lemma load_ok:
  "load_model rnd 0 (example_model (Num 1)) = Inr (example_loaded rnd (JNumber (Num 1)))"
  by (simp add: load_model_def example_model_def required_fields_def the_field_def
      NeuralNetwork_new_def Neuron_new_def Perceptron_new_def draws_def Let_def
      neuron_name_A1 enumerate_eq_zip upt_rec[of 0] eval_nat_numeral load_neuron_def
      setWeights_json_def find_activation_def ActivationFunctions_def setWeights_def
      assign_weights_def setBias_def example_loaded_def
      binary_def linearBounded_def sigmoid_def relu_def)


text \<open>
  The test of the required fields: an absent field reads as \<^verbatim>\<open>undefined\<close>, and a field
  whose value is false under \<^verbatim>\<open>!\<close> is treated like an absent one.
\<close>

lemma required_fields_absent:
  assumes "k \<in> {''layerSizes'', ''weights'', ''biases'', ''epoch''}" "k \<notin> fst ` set kv"
  shows "required_fields (JObject kv) = Inl InvalidModel"
proof -
  have "map_of (rev kv) k = None"
    using assms(2) by (simp add: map_of_eq_None_iff)
  then show ?thesis
    using assms(1) by (auto simp: required_fields_def)
qed

lemma required_fields_falsy_epoch:
  assumes "map_of (rev kv) ''epoch'' = Some v" "\<not> js_truthy v"
  shows "required_fields (JObject kv) = Inl InvalidModel"
  using assms by (simp add: required_fields_def)

text \<open>
  A required field that reads as \<^verbatim>\<open>undefined\<close> makes the test fail, whatever kind of
  value the document is, as long as its properties can be read at all.
\<close>

lemma required_fields_undefined:
  assumes "k \<in> {''layerSizes'', ''weights'', ''biases'', ''epoch''}"
    and "js_get json k = Inr JUndefined"
  shows "required_fields json = Inl InvalidModel"
proof (cases json)
  case (JObject kv)
  then show ?thesis using assms by (auto simp: required_fields_def)
qed (use assms in \<open>auto simp: required_fields_def\<close>)

text \<open>
  Claim C9, as amended. Whenever the persisted document is not \<^verbatim>\<open>null\<close> (an object, or
  an array, string, number or boolean, which have none of the fields) and one of
  \<open>layerSizes\<close>, \<open>weights\<close>, \<open>biases\<close>, \<open>epoch\<close> is absent from it, \<open>loadFromFile\<close> fails
  with the error ``invalid or corrupt model''. On the document \<^verbatim>\<open>null\<close> the first read
  of a field raises a \<^verbatim>\<open>TypeError\<close> instead. Whatever the document, the network the
  method is invoked on is left as it was, and what the call returns does not depend on
  that network: on success it is a network built from the document alone.
\<close>

theorem loadFromFile_missing_field:
  "(k \<in> {''layerSizes'', ''weights'', ''biases'', ''epoch''} \<and> js_get json k = Inr JUndefined
      \<longrightarrow> loadFromFile rnd c this json = (this, Inl (Thrown InvalidModel)))
   \<and> (k \<in> {''layerSizes'', ''weights'', ''biases'', ''epoch''} \<and> k \<notin> fst ` set kv
      \<longrightarrow> loadFromFile rnd c this (JObject kv) = (this, Inl (Thrown InvalidModel)))
   \<and> loadFromFile rnd c this JNull = (this, Inl (Thrown TypeError))
   \<and> fst (loadFromFile rnd c this json) = this
   \<and> snd (loadFromFile rnd c this json) = snd (loadFromFile rnd c other json)"
proof (intro conjI impI)
  assume "k \<in> {''layerSizes'', ''weights'', ''biases'', ''epoch''} \<and> js_get json k = Inr JUndefined"
  then have "required_fields json = Inl InvalidModel"
    using required_fields_undefined[of k json] by blast
  then show "loadFromFile rnd c this json = (this, Inl (Thrown InvalidModel))"
    by (simp add: loadFromFile_def load_model_def)
next
  assume "k \<in> {''layerSizes'', ''weights'', ''biases'', ''epoch''} \<and> k \<notin> fst ` set kv"
  then have "required_fields (JObject kv) = Inl InvalidModel"
    using required_fields_absent[of k kv] by blast
  then show "loadFromFile rnd c this (JObject kv) = (this, Inl (Thrown InvalidModel))"
    by (simp add: loadFromFile_def load_model_def)
next
  show "loadFromFile rnd c this JNull = (this, Inl (Thrown TypeError))"
    by (simp add: loadFromFile_def load_model_def required_fields_def)
next
  show "fst (loadFromFile rnd c this json) = this"
    by (simp add: loadFromFile_def)
next
  show "snd (loadFromFile rnd c this json) = snd (loadFromFile rnd c other json)"
    by (simp add: loadFromFile_def)
qed

text \<open>
  Claim C9 on the example: without \<open>epoch\<close> the model is rejected, and so is the
  document \<open>[]\<close>; complete, the model loads into a new network and \<open>example_network\<close>,
  on which the method was invoked, is unchanged.
\<close>

theorem loadFromFile_missing_field_witness:
  "loadFromFile (\<lambda>i. 1/2) 0 example_network
      (JObject [(''layerSizes'', JArray [JNumber (Num 2), JNumber (Num 1)]),
                (''weights'', JArray [JArray [JArray [JNumber (Num (1/2)), JNumber (Num (-1/2))]]]),
                (''biases'', JArray [JArray [JNumber (Num (1/4))]])])
     = (example_network, Inl (Thrown InvalidModel))
   \<and> loadFromFile (\<lambda>i. 1/2) 0 example_network (JArray [])
     = (example_network, Inl (Thrown InvalidModel))
   \<and> loadFromFile (\<lambda>i. 1/2) 0 example_network (example_model (Num 1))
     = (example_network, Inr (example_loaded (\<lambda>i. 1/2) (JNumber (Num 1))))"
  using loadFromFile_missing_field[where k = "''epoch''" and json = "JArray []"
      and kv = "[(''layerSizes'', JArray [JNumber (Num 2), JNumber (Num 1)]),
        (''weights'', JArray [JArray [JArray [JNumber (Num (1/2)), JNumber (Num (-1/2))]]]),
        (''biases'', JArray [JArray [JNumber (Num (1/4))]])]"
      and rnd = "\<lambda>i. 1/2" and c = 0 and this = example_network]
  by (simp add: loadFromFile_def load_ok)

text \<open>
  Claim C9 as stated fails on the document \<^verbatim>\<open>null\<close>: none of the four fields is
  present in it, and the call fails with a \<^verbatim>\<open>TypeError\<close>, not with the validation
  error.
\<close>

theorem loadFromFile_null_document_counterexample:
  "js_get JNull ''layerSizes'' \<noteq> Inr (JArray [JNumber (Num 2), JNumber (Num 1)])
   \<and> loadFromFile (\<lambda>i. 1/2) 0 example_network JNull
       = (example_network, Inl (Thrown TypeError))
   \<and> Thrown TypeError \<noteq> Thrown InvalidModel"
  by (simp add: loadFromFile_def load_model_def required_fields_def)

text \<open>
  Claim C10. A persisted model whose \<open>epoch\<close> is present and equal to 0 is rejected as
  invalid or corrupt, whatever its other fields.
\<close>

theorem loadFromFile_rejects_epoch_zero:
  "map_of (rev kv) ''epoch'' = Some (JNumber (Num 0))
     \<Longrightarrow> loadFromFile rnd c this (JObject kv) = (this, Inl (Thrown InvalidModel))"
proof -
  assume "map_of (rev kv) ''epoch'' = Some (JNumber (Num 0))"
  then have "required_fields (JObject kv) = Inl InvalidModel"
    using required_fields_falsy_epoch[of kv "JNumber (Num 0)"] by simp
  then show ?thesis
    by (simp add: loadFromFile_def load_model_def)
qed

text \<open>
  Claim C10 on the example: the fully populated model is rejected with epoch 0 and
  loads with epoch 1.
\<close>

theorem loadFromFile_rejects_epoch_zero_witness:
  "loadFromFile (\<lambda>i. 1/2) 0 example_network (example_model (Num 0))
     = (example_network, Inl (Thrown InvalidModel))
   \<and> snd (loadFromFile (\<lambda>i. 1/2) 0 example_network (example_model (Num 1)))
     = Inr (example_loaded (\<lambda>i. 1/2) (JNumber (Num 1)))"
  using loadFromFile_rejects_epoch_zero[of
      "[(''epoch'', JNumber (Num 0)),
        (''layerSizes'', JArray [JNumber (Num 2), JNumber (Num 1)]),
        (''weights'', JArray [JArray [JArray [JNumber (Num (1/2)), JNumber (Num (-1/2))]]]),
        (''biases'', JArray [JArray [JNumber (Num (1/4))]]),
        (''inputNames'', JArray []),
        (''outputNames'', JArray []),
        (''activations'', JArray [JArray [JString ''relu'']])]" "\<lambda>i. 1/2" 0 example_network]
  by (simp add: example_model_def[of "Num 0"] loadFromFile_def load_ok)


section \<open>Inputs that are too short\<close>

text \<open>
  \<open>Neuron.predict\<close> throws only the index-range error, and does throw it when a
  connection reads past the end of the input; so does \<open>NeuralNetwork.predict\<close> when a
  neuron of the first layer has such a connection.
\<close>

lemma neuron_sum_error:
  "neuron_sum s cs inputs = Inl e \<Longrightarrow> \<exists>i. e = IndexOutOfBounds i \<and> length inputs \<le> i"
  by (induction cs arbitrary: s) (auto split: if_splits)

lemma neuron_sum_short:
  "\<exists>c\<in>set cs. length inputs \<le> index c \<Longrightarrow> \<exists>i. neuron_sum s cs inputs = Inl (IndexOutOfBounds i)"
  by (induction cs arbitrary: s) auto

lemma Neuron_predict_short:
  "\<exists>c\<in>set (connections n). length inputs \<le> index c
     \<Longrightarrow> \<exists>i. Neuron_predict n inputs = Inl (IndexOutOfBounds i)"
  using neuron_sum_short[of "connections n" inputs "bias n"]
  by (auto simp: Neuron_predict_def)

lemma Neuron_predict_error:
  "Neuron_predict n inputs = Inl e \<Longrightarrow> \<exists>i. e = IndexOutOfBounds i"
  using neuron_sum_error[of "bias n" "connections n" inputs e]
  by (auto simp: Neuron_predict_def split: sum.splits)

lemma predict_layer_short:
  "\<exists>n\<in>set layer. \<exists>c\<in>set (connections n). length a \<le> index c
     \<Longrightarrow> \<exists>i. predict_layer layer a = Inl (IndexOutOfBounds i)"
proof (induction layer)
  case Nil
  then show ?case by simp
next
  case (Cons n ns)
  show ?case
  proof (cases "Neuron_predict n a")
    case (Inl e)
    then show ?thesis using Neuron_predict_error[of n a e] by auto
  next
    case (Inr y)
    then have "\<not> (\<exists>c\<in>set (connections n). length a \<le> index c)"
      using Neuron_predict_short[of n a] by auto
    then have "\<exists>m\<in>set ns. \<exists>c\<in>set (connections m). length a \<le> index c"
      using Cons.prems by auto
    then obtain i where "predict_layer ns a = Inl (IndexOutOfBounds i)"
      using Cons.IH by blast
    then show ?thesis using Inr by simp
  qed
qed

lemma NeuralNetwork_predict_short:
  assumes "layers net = layer # rest"
    and "\<exists>n\<in>set layer. \<exists>c\<in>set (connections n). length input \<le> index c"
  shows "\<exists>i. NeuralNetwork_predict net input = Inl (IndexOutOfBounds i)"
  using predict_layer_short[OF assms(2)] assms(1)
  by (auto simp: NeuralNetwork_predict_def)

text \<open>\<open>backpropagate\<close> never throws the index-range error.\<close>

lemma backpropagate_no_index_error:
  "snd (backpropagate net input target) \<noteq> Some (IndexOutOfBounds i)"
proof (cases "layers net = []")
  case True
  then show ?thesis
    by (simp add: backpropagate_def backpropagate_trace_def split: prod.splits)
next
  case False
  obtain acts zs where fw: "forward (layers net) [input] [] = (acts, zs)"
    by (cases "forward (layers net) [input] []") auto
  from backpropagate_trace_post[OF False fw, of target]
  obtain ls' trace where
    "backpropagate_trace net input target = ((net\<lparr> layers := ls' \<rparr>, trace), None)"
    by blast
  then show ?thesis by (simp add: backpropagate_def)
qed

text \<open>
  \<open>backpropagate\<close> on the example network with the one-entry input \<open>[1]\<close>: the missing
  input reads as \<^verbatim>\<open>undefined\<close>, every sum is \<open>NaN\<close>, and every weight and bias is
  overwritten with \<open>NaN\<close>.
\<close>

lemma example_short_run:
  "backpropagate example_network [Num 1] [Num 1]
     = (example_network\<lparr> layers :=
          [[wired ''A1'' linearBounded
              [\<lparr> index = 0, weight = NaN \<rparr>, \<lparr> index = 1, weight = NaN \<rparr>] NaN,
            wired ''A2'' linearBounded
              [\<lparr> index = 0, weight = NaN \<rparr>, \<lparr> index = 1, weight = NaN \<rparr>] NaN],
           [wired ''B1'' linearBounded
              [\<lparr> index = 0, weight = NaN \<rparr>, \<lparr> index = 1, weight = NaN \<rparr>] NaN]] \<rparr>,
        None)"
  by (simp add: backpropagate_def backpropagate_trace_def example_eval upt_rec[of 0])

text \<open>
  Claim C3 says that \<open>predict\<close> and \<open>backpropagate\<close> on an input shorter than the
  connections of a layer fail with an index-range error, with no partial mutation of
  weights or biases. \<open>predict\<close> does. \<open>backpropagate\<close> does not: on no network and no
  input does it throw that error, and on the example network with the input \<open>[1]\<close> it
  returns normally after overwriting every weight and bias with \<open>NaN\<close>.
\<close>

theorem backpropagate_short_input_not_rejected:
  "snd (backpropagate net input target) \<noteq> Some (IndexOutOfBounds i)
   \<and> NeuralNetwork_predict example_network [Num 1] = Inl (IndexOutOfBounds 1)
   \<and> backpropagate example_network [Num 1] [Num 1]
     = (example_network\<lparr> layers :=
          [[wired ''A1'' linearBounded
              [\<lparr> index = 0, weight = NaN \<rparr>, \<lparr> index = 1, weight = NaN \<rparr>] NaN,
            wired ''A2'' linearBounded
              [\<lparr> index = 0, weight = NaN \<rparr>, \<lparr> index = 1, weight = NaN \<rparr>] NaN],
           [wired ''B1'' linearBounded
              [\<lparr> index = 0, weight = NaN \<rparr>, \<lparr> index = 1, weight = NaN \<rparr>] NaN]] \<rparr>,
        None)"
  using backpropagate_no_index_error[of net input target i] example_short_run
  by (simp add: NeuralNetwork_predict_def Neuron_predict_def example_network_def wired_def)

section \<open>Connections that are not in the order of their indices\<close>

text \<open>
  Where the connections of a neuron carry the indices \<open>0, 1, 2, ...\<close> in this order, as
  the constructor builds them, the weight found by source index is the weight at the
  list position.
\<close>

lemma spec_weight_from_dense_aux:
  "map index cs = [k..<k + length cs] \<Longrightarrow> k \<le> i \<Longrightarrow> i < k + length cs
     \<Longrightarrow> find (\<lambda>c. index c = i) cs = Some (cs ! (i - k))"
proof (induction cs arbitrary: k)
  case Nil
  then show ?case by simp
next
  case (Cons c cs)
  have "[k..<k + length (c # cs)] = k # [Suc k..<Suc k + length cs]"
    by (subst upt_rec) simp
  with Cons.prems(1) have hd: "index c = k" and tl: "map index cs = [Suc k..<Suc k + length cs]"
    by simp_all
  show ?case
  proof (cases "i = k")
    case True
    then show ?thesis using hd by simp
  next
    case False
    then have "Suc k \<le> i" "i < Suc k + length cs" using Cons.prems by simp_all
    then have "find (\<lambda>c. index c = i) cs = Some (cs ! (i - Suc k))"
      using Cons.IH[OF tl] by blast
    moreover have "(c # cs) ! (i - k) = cs ! (i - Suc k)"
      using False Cons.prems(2) by (simp add: nth_Cons' )
    ultimately show ?thesis using False hd by simp
  qed
qed

lemma spec_weight_from_dense:
  "map index (connections n) = [0..<length (connections n)] \<Longrightarrow> i < length (connections n)
     \<Longrightarrow> spec_weight_from n i = js_nth (getWeights n) i"
  using spec_weight_from_dense_aux[of "connections n" 0 i]
  by (simp add: spec_weight_from_def js_nth_def getWeights_def)

text \<open>The run of \<open>backpropagate\<close> on the reordered network.\<close>

lemma reordered_run:
  "backpropagate_trace reordered_network [Num 1, Num 1] [Num 1]
     = ((reordered_network\<lparr> layers :=
           [[wired ''A1'' linearBounded
               [\<lparr> index = 0, weight = Num (1/4) \<rparr>, \<lparr> index = 1, weight = Num (-3/4) \<rparr>]
               (Num (-1/4)),
             wired ''A2'' linearBounded
               [\<lparr> index = 0, weight = Num (17/32) \<rparr>, \<lparr> index = 1, weight = Num (17/32) \<rparr>]
               (Num (9/32))],
            [wired ''B1'' linearBounded
               [\<lparr> index = 1, weight = Num (-1) \<rparr>, \<lparr> index = 0, weight = Num (9/8) \<rparr>] (Num (1/4))]] \<rparr>,
         [[Num (1/2), Num (-9/16)], [Num (-1/2)]]), None)"
  by (simp add: backpropagate_trace_def reordered_network_def example_eval upt_rec[of 0])

text \<open>
  Claim C2 says that the delta propagated to neuron \<open>i\<close> of the previous layer uses the
  weight of the connection whose source index is \<open>i\<close>, also under reordered wiring. The
  code reads the weight at list position \<open>i\<close>: on the reordered network the hidden delta
  it computes is \<open>[1/2, -9/16]\<close>, while selecting the weights by source index gives
  \<open>[-9/16, 1/2]\<close> from the updated output weights and \<open>[-1/2, 1/2]\<close> from those of the
  forward pass. \<open>predict\<close>, which follows the source indices, does not tell the
  reordered network from the example network.
\<close>

theorem next_delta_reads_list_position:
  "snd (fst (backpropagate_trace reordered_network [Num 1, Num 1] [Num 1]))
     = [[Num (1/2), Num (-9/16)], [Num (-1/2)]]
   \<and> spec_next_delta
         (layers (fst (fst (backpropagate_trace reordered_network [Num 1, Num 1] [Num 1]))) ! 1)
         [Num (-1/2)] (layers reordered_network ! 0) [Num 0, Num (1/2)]
       = [Num (-9/16), Num (1/2)]
   \<and> spec_next_delta (layers reordered_network ! 1)
         [Num (-1/2)] (layers reordered_network ! 0) [Num 0, Num (1/2)]
       = [Num (-1/2), Num (1/2)]
   \<and> NeuralNetwork_predict reordered_network [Num 1, Num 1]
       = NeuralNetwork_predict example_network [Num 1, Num 1]"
  unfolding reordered_run
  by (simp add: spec_next_delta_def spec_weight_from_def reordered_network_def
      example_network_def wired_def linearBounded_def js_nth_def upt_rec[of 0]
      NeuralNetwork_predict_def Neuron_predict_def Neuron_activate_def)

end
